theory Spec2Isabelle
  imports
    Complex_Main
    "HOL-Library.Product_Lexorder"
    "HOL-Library.List_Lexorder"
    "HOL-Library.Char_ord"
    "HOL-Library.Multiset"
begin

section \<open>Python values and the exceptions the engine can meet\<close>

text \<open>
  \<^verbatim>\<open>backend.py\<close> works on loosely typed dictionaries: a posting is \<^verbatim>\<open>dict(row)\<close> of an
  SQLite row, so a numeric column holds an \<^verbatim>\<open>int\<close>, a \<^verbatim>\<open>float\<close>, \<^verbatim>\<open>None\<close> (SQL NULL) or,
  for a value the column affinity could not convert, a \<^verbatim>\<open>str\<close>. A float is held as the
  real number it denotes. Every exception of the source is a value \<open>Inl e\<close>.
\<close>

datatype error = TypeError | ValueError | ZeroDivisionError | IndexError

datatype pyval = PNone | PInt int | PFloat real | PStr string

fun num_of :: "pyval \<Rightarrow> real option" where
  "num_of (PInt n) = Some (of_int n)"
| "num_of (PFloat r) = Some r"
| "num_of PNone = None"
| "num_of (PStr s) = None"

definition bind_err :: "error + 'a \<Rightarrow> ('a \<Rightarrow> error + 'b) \<Rightarrow> error + 'b" where
  "bind_err m f = (case m of Inl e \<Rightarrow> Inl e | Inr x \<Rightarrow> f x)"

text \<open>\<^verbatim>\<open>a / b\<close>: operands that are not numbers raise TypeError, a zero divisor raises
  ZeroDivisionError.\<close>

definition py_truediv :: "pyval \<Rightarrow> pyval \<Rightarrow> error + real" where
  "py_truediv a b =
     (case (num_of a, num_of b) of
        (Some x, Some y) \<Rightarrow> if y = 0 then Inl ZeroDivisionError else Inr (x / y)
      | _ \<Rightarrow> Inl TypeError)"

text \<open>\<^verbatim>\<open>a > b\<close>: numbers compare by value, strings by code points, anything else raises.\<close>

fun py_gt :: "pyval \<Rightarrow> pyval \<Rightarrow> error + bool" where
  "py_gt (PStr s) (PStr t) = Inr (t < s)"
| "py_gt a b =
     (case (num_of a, num_of b) of
        (Some x, Some y) \<Rightarrow> Inr (y < x)
      | _ \<Rightarrow> Inl TypeError)"

text \<open>\<^verbatim>\<open>max(xs)\<close> on a non-empty list: the running maximum is replaced by an item only when
  \<^verbatim>\<open>item > maxitem\<close>; a single item is returned without any comparison.\<close>

fun py_max_from :: "pyval \<Rightarrow> pyval list \<Rightarrow> error + pyval" where
  "py_max_from m [] = Inr m"
| "py_max_from m (x # xs) =
     (case py_gt x m of
        Inl e \<Rightarrow> Inl e
      | Inr b \<Rightarrow> py_max_from (if b then x else m) xs)"

fun py_max :: "pyval list \<Rightarrow> error + pyval" where
  "py_max [] = Inl ValueError"
| "py_max (x # xs) = py_max_from x xs"

text \<open>\<^verbatim>\<open>v == 0\<close> never raises.\<close>

fun py_eq_zero :: "pyval \<Rightarrow> bool" where
  "py_eq_zero (PInt n) = (n = 0)"
| "py_eq_zero (PFloat r) = (r = 0)"
| "py_eq_zero PNone = False"
| "py_eq_zero (PStr s) = False"

text \<open>\<^verbatim>\<open>xs[:k]\<close> for an integer \<open>k\<close>: a negative \<open>k\<close> counts from the end.\<close>

definition py_slice_to :: "'a list \<Rightarrow> int \<Rightarrow> 'a list" where
  "py_slice_to xs k =
     (if 0 \<le> k then take (nat k) xs else take (nat (int (length xs) + k)) xs)"

text \<open>\<^verbatim>\<open>sorted(xs, key=k, reverse=True)\<close> and \<^verbatim>\<open>xs.sort(key=k, reverse=True)\<close>: CPython reverses
  the list, sorts it stably in ascending key order and reverses it again, so that equal
  keys keep the order they had.\<close>

definition py_sorted_desc :: "('a \<Rightarrow> 'k::linorder) \<Rightarrow> 'a list \<Rightarrow> 'a list" where
  "py_sorted_desc k xs = rev (sort_key k (rev xs))"

section \<open>Floating point\<close>

text \<open>
  A Python float is a binary64 number. \<open>round_double x\<close> is the binary64 number nearest
  to \<open>x\<close>, ties going to the even significand: with \<open>2 ^ e \<le> \<bar>x\<bar> < 2 ^ (e + 1)\<close> it is
  the nearest multiple of \<open>2 ^ (e - 52)\<close>. The exponent is not bounded, so overflow and
  subnormal numbers are left out; the signals of the data model and the scores are far
  from both. A float literal, a true division and each \<^verbatim>\<open>+\<close> and \<^verbatim>\<open>*\<close> of floats return
  the rounded exact result.

  The fallback score is computed with this arithmetic, since the order of the result
  and its ties depend on every rounding. On the vector-space path the blend is taken
  over the reals: the similarity comes from the library as a real, and what is verified
  there is the formula and the order that the scores, whatever they are, induce.
\<close>

definition round_half_even :: "real \<Rightarrow> int" where
  "round_half_even q =
     (let f = \<lfloor>q\<rfloor>; d = q - of_int f
      in if d < 1 / 2 then f else if 1 / 2 < d then f + 1 else if even f then f else f + 1)"

definition round_double :: "real \<Rightarrow> real" where
  "round_double x =
     (if x = 0 then 0
      else let e = \<lfloor>log 2 \<bar>x\<bar>\<rfloor> - 52
           in of_int (round_half_even (x / 2 powi e)) * 2 powi e)"

definition float_add :: "real \<Rightarrow> real \<Rightarrow> real" where
  "float_add x y = round_double (x + y)"

definition float_mul :: "real \<Rightarrow> real \<Rightarrow> real" where
  "float_mul x y = round_double (x * y)"

text \<open>\<^verbatim>\<open>a / b\<close> as Python returns it: the quotient of the two values, rounded once.\<close>

definition float_truediv :: "pyval \<Rightarrow> pyval \<Rightarrow> error + real" where
  "float_truediv a b = bind_err (py_truediv a b) (\<lambda>q. Inr (round_double q))"

section \<open>Strings\<close>

text \<open>A \<^verbatim>\<open>str\<close> is held as the list of its UTF-8 bytes. Concatenation, \<^verbatim>\<open>join\<close> and the
  comparison of strings do on the bytes what Python does on the code points. The
  methods that consult the Unicode database (\<^verbatim>\<open>lower\<close>, \<^verbatim>\<open>isalnum\<close>, \<^verbatim>\<open>isdigit\<close>,
  \<^verbatim>\<open>strip\<close>) and \<^verbatim>\<open>len\<close>, which counts code points, are taken from the record \<open>lib\<close>
  below.\<close>

fun py_join :: "string \<Rightarrow> string list \<Rightarrow> string" where
  "py_join sep [] = []"
| "py_join sep [x] = x"
| "py_join sep (x # y # ys) = x @ sep @ py_join sep (y # ys)"

section \<open>The libraries the engine calls\<close>

text \<open>
  NLTK, scikit-learn and NumPy are not part of the repository. Each call into them is a
  field of the record \<open>lib\<close>, so the engine is verified for whatever these functions
  return:
  \<^item> \<open>word_tokenize\<close>, \<open>lemmatize\<close>, \<open>stop_words\<close>: \<^verbatim>\<open>nltk.tokenize.word_tokenize\<close>,
    \<^verbatim>\<open>WordNetLemmatizer().lemmatize\<close>, \<^verbatim>\<open>set(stopwords.words('english'))\<close>;
  \<^item> \<open>fit_transform\<close>: \<^verbatim>\<open>TfidfVectorizer(max_features=5000, ngram_range=(1, 2),
    min_df=2).fit_transform\<close> together with \<^verbatim>\<open>get_feature_names_out\<close>; it raises or returns
    the feature names and the weight matrix, one row per document of the corpus and one
    column per feature (entry \<open>weight m i j\<close>);
  \<^item> \<open>cosine_similarity\<close>: the similarity of the query row and one document row;
  \<^item> \<open>argsort\<close>: \<^verbatim>\<open>np.argsort\<close> with its default (not stable) sorting kind.

  The string methods of Python itself are fields as well: \<open>str_lower\<close>,
  \<open>str_isalnum\<close>, \<open>str_isdigit\<close>, \<open>str_strip\<close> and \<open>str_len\<close> are \<^verbatim>\<open>s.lower()\<close>,
  \<^verbatim>\<open>s.isalnum()\<close>, \<^verbatim>\<open>s.isdigit()\<close>, \<^verbatim>\<open>s.strip()\<close> and \<^verbatim>\<open>len(s)\<close> on Unicode text.
\<close>

record tfidf =
  feature_names :: "string list"
  weight :: "nat \<Rightarrow> nat \<Rightarrow> real"

record lib =
  word_tokenize :: "string \<Rightarrow> string list"
  lemmatize :: "string \<Rightarrow> string"
  stop_words :: "string set"
  fit_transform :: "string list \<Rightarrow> error + tfidf"
  cosine_similarity :: "real list \<Rightarrow> real list \<Rightarrow> real"
  argsort :: "real list \<Rightarrow> nat list"
  str_lower :: "string \<Rightarrow> string"
  str_isalnum :: "string \<Rightarrow> bool"
  str_isdigit :: "string \<Rightarrow> bool"
  str_strip :: "string \<Rightarrow> string"
  str_len :: "string \<Rightarrow> nat"

text \<open>\<^verbatim>\<open>m[i].toarray()[0]\<close>: row \<open>i\<close> of the matrix as a dense vector.\<close>

definition dense_row :: "tfidf \<Rightarrow> nat \<Rightarrow> real list" where
  "dense_row m i = map (weight m i) [0..<length (feature_names m)]"

section \<open>Preprocessing\<close>

definition keep_token :: "lib \<Rightarrow> string \<Rightarrow> bool" where
  "keep_token L word \<longleftrightarrow>
     str_isalnum L word \<and> word \<notin> stop_words L \<and> \<not> str_isdigit L word \<and>
     2 < str_len L word"

text \<open>\<^verbatim>\<open>not s.strip()\<close>: nothing is left of the string once white space is stripped.\<close>

definition blank :: "lib \<Rightarrow> string \<Rightarrow> bool" where
  "blank L s \<longleftrightarrow> str_strip L s = []"

definition preprocess :: "lib \<Rightarrow> string \<Rightarrow> string" where
  "preprocess L text =
     (let tokens = word_tokenize L (str_lower L text);
          filtered_tokens = map (lemmatize L) (filter (keep_token L) tokens)
      in py_join '' '' filtered_tokens)"

section \<open>Records handed to the engine\<close>

text \<open>
  A posting is a row of the table \<^verbatim>\<open>internships\<close>. Its text columns hold a \<^verbatim>\<open>str\<close> or
  \<^verbatim>\<open>None\<close> (\<open>None\<close> below, which an f-string prints as \<^verbatim>\<open>None\<close>). A numeric signal is
  \<open>None\<close> when the key is missing from the dictionary and \<open>Some v\<close> when the key holds
  the Python value \<open>v\<close>. The other columns ride along in the record's extension.
\<close>

record internship =
  title :: "string option"
  description :: "string option"
  required_skills :: "string option"
  popularity :: "pyval option"
  rating :: "pyval option"
  company_prestige :: "pyval option"
  stipend :: "pyval option"

record student =
  skills :: "string option"
  interests :: "string option"

text \<open>\<^verbatim>\<open>intern.get(key, 0)\<close> and \<^verbatim>\<open>student.get(key, "")\<close>.\<close>

definition py_get :: "pyval option \<Rightarrow> pyval" where
  "py_get field = (case field of None \<Rightarrow> PInt 0 | Some v \<Rightarrow> v)"

definition get_text :: "string option \<Rightarrow> string" where
  "get_text field = (case field of None \<Rightarrow> [] | Some s \<Rightarrow> s)"

text \<open>\<^verbatim>\<open>f'{v}'\<close> for a text column.\<close>

definition fmt_text :: "string option \<Rightarrow> string" where
  "fmt_text field = (case field of None \<Rightarrow> ''None'' | Some s \<Rightarrow> s)"

text \<open>An explanation is the list of its lines (the source joins them with a newline).
  The three formatted lines keep the value they print.\<close>

datatype expl_line =
    Line string
  | Similarity_Score real
  | Popularity_Score pyval
  | Prestige_Score pyval

type_synonym explanation = "expl_line list"

type_synonym 'a scored = "real \<times> 'a internship_scheme \<times> explanation"

definition bullet :: string where
  "bullet = [CHR 0xE2, CHR 0x80, CHR 0xA2]"

section \<open>Term contribution helper\<close>

text \<open>The comprehension \<^verbatim>\<open>[feature_names[i] for i in top_indices if contributions[i] > 0]\<close>;
  an index outside an array raises IndexError.\<close>

fun pick_terms :: "real list \<Rightarrow> string list \<Rightarrow> nat list \<Rightarrow> error + string list" where
  "pick_terms contributions names [] = Inr []"
| "pick_terms contributions names (i # rest) =
     (if \<not> i < length contributions then Inl IndexError
      else if 0 < contributions ! i then
        (if \<not> i < length names then Inl IndexError
         else bind_err (pick_terms contributions names rest)
                (\<lambda>terms. Inr (names ! i # terms)))
      else pick_terms contributions names rest)"

text \<open>The elementwise product of two one-dimensional arrays: a one-element array is
  broadcast, any other difference in length raises ValueError.\<close>

definition np_multiply :: "real list \<Rightarrow> real list \<Rightarrow> error + real list" where
  "np_multiply xs ys =
     (if length xs = length ys then Inr (map2 (*) xs ys)
      else if length xs = 1 then Inr (map (\<lambda>y. hd xs * y) ys)
      else if length ys = 1 then Inr (map (\<lambda>x. x * hd ys) xs)
      else Inl ValueError)"

definition get_top_contributing_terms ::
  "lib \<Rightarrow> real list \<Rightarrow> real list \<Rightarrow> string list \<Rightarrow> int \<Rightarrow> error + string list" where
  "get_top_contributing_terms L query_vec doc_vec names top_n =
     bind_err (np_multiply query_vec doc_vec) (\<lambda>contributions.
       let top_indices = rev (argsort L contributions)
       in bind_err (pick_terms contributions names top_indices)
            (\<lambda>top_terms. Inr (py_slice_to top_terms top_n)))"

section \<open>Recommendation engine\<close>

definition fallback_explanation :: explanation where
  "fallback_explanation = [Line ''Recommended based on general popularity and ratings.'']"

definition fallback_score :: "'a internship_scheme \<Rightarrow> error + real" where
  "fallback_score intern =
     bind_err (float_truediv (py_get (popularity intern)) (PInt 100)) (\<lambda>p.
     bind_err (float_truediv (py_get (rating intern)) (PInt 5)) (\<lambda>r.
     bind_err (float_truediv (py_get (company_prestige intern)) (PInt 10)) (\<lambda>g.
       Inr (float_add
              (float_add (float_mul p (round_double (5 / 10)))
                 (float_mul r (round_double (3 / 10))))
              (float_mul g (round_double (2 / 10)))))))"

fun fallback_scores :: "'a internship_scheme list \<Rightarrow> error + 'a scored list" where
  "fallback_scores [] = Inr []"
| "fallback_scores (intern # rest) =
     bind_err (fallback_score intern) (\<lambda>score.
     bind_err (fallback_scores rest) (\<lambda>scores.
       Inr ((score, intern, fallback_explanation) # scores)))"

definition max_stipend_of :: "'a internship_scheme list \<Rightarrow> error + pyval" where
  "max_stipend_of internships =
     (let all_stipends = map (\<lambda>intern. py_get (stipend intern)) internships
      in bind_err (if all_stipends \<noteq> [] then py_max all_stipends else Inr (PInt 1))
           (\<lambda>max_stipend. Inr (if py_eq_zero max_stipend then PInt 1 else max_stipend)))"

definition blended_score :: "real \<Rightarrow> pyval \<Rightarrow> 'a internship_scheme \<Rightarrow> error + real" where
  "blended_score sim max_stipend intern =
     bind_err (py_truediv (py_get (popularity intern)) (PInt 100)) (\<lambda>p.
     bind_err (py_truediv (py_get (stipend intern)) max_stipend) (\<lambda>s.
     bind_err (py_truediv (py_get (rating intern)) (PInt 5)) (\<lambda>r.
     bind_err (py_truediv (py_get (company_prestige intern)) (PInt 10)) (\<lambda>g.
       Inr (sim * 0.55 + p * 0.15 + min s 1 * 0.15 + r * 0.10 + g * 0.05)))))"

definition first_line :: "real \<Rightarrow> string list \<Rightarrow> string" where
  "first_line sim top_terms =
     (if 0.05 < sim \<and> top_terms \<noteq> [] then
        bullet @ '' Keyword Match: '' @ py_join '', '' top_terms
      else if 0.05 < sim then
        bullet @ '' General textual match with your resume.''
      else
        bullet @ '' No strong skill match, ranked by popularity and ratings.'')"

definition explain :: "real \<Rightarrow> string list \<Rightarrow> 'a internship_scheme \<Rightarrow> explanation" where
  "explain sim top_terms intern =
     [Line (first_line sim top_terms),
      Similarity_Score sim,
      Popularity_Score (py_get (popularity intern)),
      Prestige_Score (py_get (company_prestige intern))]"

text \<open>The body of \<^verbatim>\<open>for i, intern in enumerate(internships)\<close>, from index \<open>i\<close> on.\<close>

fun score_loop ::
  "lib \<Rightarrow> tfidf \<Rightarrow> real list \<Rightarrow> real list \<Rightarrow> pyval \<Rightarrow> nat \<Rightarrow> 'a internship_scheme list
     \<Rightarrow> error + 'a scored list" where
  "score_loop L m query_vec similarities max_stipend i [] = Inr []"
| "score_loop L m query_vec similarities max_stipend i (intern # rest) =
     (if \<not> i < length similarities then Inl IndexError
      else
        let sim = similarities ! i in
        bind_err (blended_score sim max_stipend intern) (\<lambda>score.
        bind_err (get_top_contributing_terms L query_vec (dense_row m i) (feature_names m) 3)
          (\<lambda>top_terms.
        bind_err (score_loop L m query_vec similarities max_stipend (Suc i) rest) (\<lambda>scores.
          Inr ((score, intern, explain sim top_terms intern) # scores)))))"

text \<open>\<^verbatim>\<open>sorted(scores, key=lambda x: (x[0], random.random()), reverse=True)\<close>: the key
  function is called once per item, in list order, so item \<open>i\<close> gets the \<open>i\<close>-th number
  that the module-level generator yields during the call, \<open>draws i\<close>.\<close>

definition sort_with_draws :: "(nat \<Rightarrow> real) \<Rightarrow> (real \<times> 'b) list \<Rightarrow> (real \<times> 'b) list" where
  "sort_with_draws draws scores =
     map snd (py_sorted_desc fst
       (map (\<lambda>(i, x). ((fst x, draws i), x)) (zip [0..<length scores] scores)))"

definition make_docs :: "lib \<Rightarrow> 'a internship_scheme list \<Rightarrow> string list" where
  "make_docs L internships =
     map (\<lambda>i. preprocess L
            (fmt_text (title i) @ '' '' @ fmt_text (description i) @ '' '' @
             fmt_text (required_skills i)))
       internships"

definition make_query :: "lib \<Rightarrow> student \<Rightarrow> string" where
  "make_query L student =
     preprocess L (get_text (skills student) @ '' '' @ get_text (interests student))"

definition recommendInternship ::
  "lib \<Rightarrow> (nat \<Rightarrow> real) \<Rightarrow> student \<Rightarrow> 'a internship_scheme list \<Rightarrow> int
     \<Rightarrow> error + 'a scored list" where
  "recommendInternship L draws student internships top_n =
     (if internships = [] then Inr []
      else
        let query = make_query L student;
            docs = make_docs L internships
        in
        if blank L query then
          bind_err (fallback_scores internships) (\<lambda>scores.
            Inr (py_slice_to (py_sorted_desc fst scores) top_n))
        else
          bind_err (fit_transform L (docs @ [query])) (\<lambda>tfidf_matrix.
            let query_vec = dense_row tfidf_matrix (length docs);
                similarities =
                  map (\<lambda>i. cosine_similarity L query_vec (dense_row tfidf_matrix i))
                    [0..<length docs]
            in
            bind_err (max_stipend_of internships) (\<lambda>max_stipend.
            bind_err (score_loop L tfidf_matrix query_vec similarities max_stipend 0
                        internships) (\<lambda>scores.
              Inr (py_slice_to (sort_with_draws draws scores) top_n)))))"

section \<open>A reference instance of the libraries\<close>

text \<open>
  To run the engine on concrete inputs the library calls need values. The definitions
  of this section follow the documented behaviour of scikit-learn's
  \<^verbatim>\<open>TfidfVectorizer(max_features=5000, ngram_range=(1, 2), min_df=2)\<close> and
  \<^verbatim>\<open>cosine_similarity\<close>: tokens are the runs of two or more word characters of the
  lowercased document, the terms of a document are its tokens and its pairs of adjacent
  tokens, the vocabulary is sorted, a term is kept when at least two documents contain
  it, at most 5000 terms with the highest total count are kept, a vocabulary that ends
  up empty raises ValueError, the weight of a term is its count times
  \<open>ln ((1 + n) / (1 + df)) + 1\<close>, and rows are scaled to Euclidean length 1.
\<close>

text \<open>Python's string methods on ASCII text.\<close>

definition lower_char :: "char \<Rightarrow> char" where
  "lower_char c =
     (case map_of (zip ''ABCDEFGHIJKLMNOPQRSTUVWXYZ'' ''abcdefghijklmnopqrstuvwxyz'') c of
        Some d \<Rightarrow> d
      | None \<Rightarrow> c)"

definition ascii_lower :: "string \<Rightarrow> string" where
  "ascii_lower s = map lower_char s"

definition is_digit_char :: "char \<Rightarrow> bool" where
  "is_digit_char c \<longleftrightarrow> c \<in> set ''0123456789''"

definition is_alpha_char :: "char \<Rightarrow> bool" where
  "is_alpha_char c \<longleftrightarrow>
     c \<in> set ''abcdefghijklmnopqrstuvwxyzABCDEFGHIJKLMNOPQRSTUVWXYZ''"

definition is_space_char :: "char \<Rightarrow> bool" where
  "is_space_char c \<longleftrightarrow>
     c \<in> set [CHR '' '', CHR 0x09, CHR 0x0A, CHR 0x0B, CHR 0x0C, CHR 0x0D,
               CHR 0x1C, CHR 0x1D, CHR 0x1E, CHR 0x1F]"

definition ascii_isalnum :: "string \<Rightarrow> bool" where
  "ascii_isalnum s \<longleftrightarrow> s \<noteq> [] \<and> list_all (\<lambda>c. is_alpha_char c \<or> is_digit_char c) s"

definition ascii_isdigit :: "string \<Rightarrow> bool" where
  "ascii_isdigit s \<longleftrightarrow> s \<noteq> [] \<and> list_all is_digit_char s"

definition ascii_strip :: "string \<Rightarrow> string" where
  "ascii_strip s = rev (dropWhile is_space_char (rev (dropWhile is_space_char s)))"

fun runs :: "(char \<Rightarrow> bool) \<Rightarrow> string \<Rightarrow> string \<Rightarrow> string list" where
  "runs P acc [] = (if acc = [] then [] else [rev acc])"
| "runs P acc (c # cs) =
     (if P c then runs P (c # acc) cs
      else (if acc = [] then [] else [rev acc]) @ runs P [] cs)"

definition is_word_char :: "char \<Rightarrow> bool" where
  "is_word_char c \<longleftrightarrow> is_alpha_char c \<or> is_digit_char c \<or> c = CHR ''_''"

definition sk_tokens :: "string \<Rightarrow> string list" where
  "sk_tokens doc = filter (\<lambda>w. 2 \<le> length w) (runs is_word_char [] (ascii_lower doc))"

definition sk_ngrams :: "string \<Rightarrow> string list" where
  "sk_ngrams doc =
     (let tokens = sk_tokens doc
      in tokens @ map2 (\<lambda>a b. a @ '' '' @ b) tokens (tl tokens))"

definition doc_freq :: "string list list \<Rightarrow> string \<Rightarrow> nat" where
  "doc_freq term_lists t = length (filter (\<lambda>terms. t \<in> set terms) term_lists)"

definition sk_vocabulary :: "(real list \<Rightarrow> nat list) \<Rightarrow> string list \<Rightarrow> string list" where
  "sk_vocabulary asort corpus =
     (let term_lists = map sk_ngrams corpus;
          kept = filter (\<lambda>t. 2 \<le> doc_freq term_lists t)
                   (sort (remdups (concat term_lists)))
      in if 5000 < length kept then
           nths kept
             (set (take 5000
                (asort (map (\<lambda>t. - real (count_list (concat term_lists) t)) kept))))
         else kept)"

definition sk_raw_weight :: "string list list \<Rightarrow> string list \<Rightarrow> nat \<Rightarrow> nat \<Rightarrow> real" where
  "sk_raw_weight term_lists vocab i j =
     (if i < length term_lists \<and> j < length vocab then
        real (count_list (term_lists ! i) (vocab ! j)) *
        (ln ((1 + real (length term_lists)) / (1 + real (doc_freq term_lists (vocab ! j)))) + 1)
      else 0)"

definition l2_norm :: "real list \<Rightarrow> real" where
  "l2_norm v = sqrt (sum_list (map (\<lambda>x. x * x) v))"

definition l2_normalize :: "real list \<Rightarrow> real list" where
  "l2_normalize v = (if l2_norm v = 0 then v else map (\<lambda>x. x / l2_norm v) v)"

definition sk_fit_transform :: "(real list \<Rightarrow> nat list) \<Rightarrow> string list \<Rightarrow> error + tfidf" where
  "sk_fit_transform asort corpus =
     (let term_lists = map sk_ngrams corpus;
          vocab = sk_vocabulary asort corpus
      in if vocab = [] then Inl ValueError
         else Inr \<lparr>feature_names = vocab,
                   weight = (\<lambda>i j.
                     l2_normalize (map (sk_raw_weight term_lists vocab i) [0..<length vocab])
                       ! j)\<rparr>)"

definition sk_cosine_similarity :: "real list \<Rightarrow> real list \<Rightarrow> real" where
  "sk_cosine_similarity x y = sum_list (map2 (*) (l2_normalize x) (l2_normalize y))"

text \<open>An argsort that keeps equal values in index order, as NumPy's insertion sort on
  short arrays does.\<close>

definition stable_argsort :: "real list \<Rightarrow> nat list" where
  "stable_argsort xs = sort_key (\<lambda>i. xs ! i) [0..<length xs]"

text \<open>What the theorems ask of \<^verbatim>\<open>np.argsort\<close>: the indices of the array, each once, in
  ascending order of their values.\<close>

definition argsort_ok :: "(real list \<Rightarrow> nat list) \<Rightarrow> bool" where
  "argsort_ok asort \<longleftrightarrow>
     (\<forall>xs. mset (asort xs) = mset [0..<length xs] \<and> sorted (map (\<lambda>i. xs ! i) (asort xs)))"

text \<open>NLTK on the plain lowercase words of the examples: the tokenizer splits at white
  space, the WordNet lemmatizer strips the plural of the nouns listed, and the stop
  words are those of the English list that the examples use.\<close>

definition sample_lib :: lib where
  "sample_lib =
     \<lparr>word_tokenize = runs (\<lambda>c. \<not> is_space_char c) [],
      lemmatize = (\<lambda>w. case map_of [(''cans'', ''can''), (''skills'', ''skill'')] w of
                         Some l \<Rightarrow> l | None \<Rightarrow> w),
      stop_words = set [''the'', ''and'', ''of'', ''can'', ''for'', ''with''],
      fit_transform = sk_fit_transform stable_argsort,
      cosine_similarity = sk_cosine_similarity,
      argsort = stable_argsort,
      str_lower = ascii_lower,
      str_isalnum = ascii_isalnum,
      str_isdigit = ascii_isdigit,
      str_strip = ascii_strip,
      str_len = length\<rparr>"

section \<open>The specification's formulas\<close>

text \<open>The definitions of this section follow the words of the specification; the
  theorems compare them with the engine above.\<close>

text \<open>The number a signal field stands for, zero when the key is missing.\<close>

fun signal :: "pyval option \<Rightarrow> real" where
  "signal None = 0"
| "signal (Some (PInt n)) = of_int n"
| "signal (Some (PFloat r)) = r"
| "signal (Some PNone) = 0"
| "signal (Some (PStr s)) = 0"

fun numeric :: "pyval option \<Rightarrow> bool" where
  "numeric None = True"
| "numeric (Some (PInt n)) = True"
| "numeric (Some (PFloat r)) = True"
| "numeric (Some PNone) = False"
| "numeric (Some (PStr s)) = False"

text \<open>A candidate record of the data model: every signal is a number or is missing.\<close>

definition well_typed :: "'a internship_scheme \<Rightarrow> bool" where
  "well_typed c \<longleftrightarrow>
     numeric (popularity c) \<and> numeric (rating c) \<and> numeric (company_prestige c) \<and>
     numeric (stipend c)"

text \<open>\<open>score = 0.5 (popularity/100) + 0.3 (rating/5) + 0.2 (prestige/10)\<close>, every literal
  and every operation rounded to binary64, the sum taken from left to right.\<close>

definition spec_fallback :: "'a internship_scheme \<Rightarrow> real" where
  "spec_fallback c =
     round_double
       (round_double
          (round_double (round_double (5 / 10) * round_double (signal (popularity c) / 100)) +
           round_double (round_double (3 / 10) * round_double (signal (rating c) / 5))) +
        round_double (round_double (2 / 10) * round_double (signal (company_prestige c) / 10)))"

text \<open>The maximum compensation across all candidates, treated as 1 if it is 0.\<close>

definition spec_max_stipend :: "'a internship_scheme list \<Rightarrow> real" where
  "spec_max_stipend cs =
     (let m = Max (set (map (\<lambda>c. signal (stipend c)) cs)) in if m = 0 then 1 else m)"

definition spec_stipend_term :: "real \<Rightarrow> 'a internship_scheme \<Rightarrow> real" where
  "spec_stipend_term maxStipend c = 0.15 * min (signal (stipend c) / maxStipend) 1"

text \<open>\<open>score = 0.55 sim + 0.15 (popularity/100) + 0.15 min(stipend/maxStipend, 1) +
  0.10 (rating/5) + 0.05 (prestige/10)\<close>.\<close>

definition spec_blend :: "real \<Rightarrow> real \<Rightarrow> 'a internship_scheme \<Rightarrow> real" where
  "spec_blend sim maxStipend c =
     0.55 * sim + 0.15 * (signal (popularity c) / 100) + spec_stipend_term maxStipend c +
     0.10 * (signal (rating c) / 5) + 0.05 * (signal (company_prestige c) / 10)"

text \<open>The top 3 terms by product among the terms with a strictly positive product,
  ties broken by vector order: the indices in descending order of their product, equal
  products in ascending index order.\<close>

definition spec_top_terms :: "real list \<Rightarrow> string list \<Rightarrow> string list" where
  "spec_top_terms contributions names =
     map (\<lambda>i. names ! i)
       (take 3 (filter (\<lambda>i. 0 < contributions ! i)
                  (py_sorted_desc (\<lambda>i. contributions ! i) [0..<length contributions])))"

text \<open>The same selection without a rule for ties: \<open>sel\<close> holds indices of strictly
  positive products in descending order of product, three of them or all there are,
  and no index left out has a larger product than one selected.\<close>

definition top_by_product :: "real list \<Rightarrow> nat list \<Rightarrow> bool" where
  "top_by_product contributions sel \<longleftrightarrow>
     distinct sel \<and>
     list_all (\<lambda>i. i < length contributions \<and> 0 < contributions ! i) sel \<and>
     sorted_wrt (\<lambda>i j. contributions ! j \<le> contributions ! i) sel \<and>
     length sel = min 3 (length (filter (\<lambda>x. 0 < x) contributions)) \<and>
     list_all (\<lambda>j. j \<in> set sel \<or> \<not> 0 < contributions ! j \<or>
                  list_all (\<lambda>i. contributions ! j \<le> contributions ! i) sel)
       [0..<length contributions]"

text \<open>The three first lines of an explanation.\<close>

definition spec_first_line :: "real \<Rightarrow> string list \<Rightarrow> string" where
  "spec_first_line sim terms =
     (if 0.05 < sim \<and> terms \<noteq> [] then [CHR 0xE2, CHR 0x80, CHR 0xA2] @ '' Keyword Match: '' @ py_join '', '' terms
      else if 0.05 < sim \<and> terms = [] then
        [CHR 0xE2, CHR 0x80, CHR 0xA2] @ '' General textual match with your resume.''
      else [CHR 0xE2, CHR 0x80, CHR 0xA2] @ '' No strong skill match, ranked by popularity and ratings.'')"

text \<open>The value the popularity and prestige lines print: the one stored under the key,
  0 when the key is missing.\<close>

fun shown :: "pyval option \<Rightarrow> pyval" where
  "shown None = PInt 0"
| "shown (Some v) = v"

text \<open>The lemmas of a text: what \<open>preprocess\<close> joins.\<close>

definition lemmas_of :: "lib \<Rightarrow> string \<Rightarrow> string list" where
  "lemmas_of L text =
     map (lemmatize L) (filter (keep_token L) (word_tokenize L (str_lower L text)))"

text \<open>Lemmatization stability: the tokenizer splits the normalized text back into its
  lemmas, and each lemma passes the filter and is its own lemma.\<close>

definition stable_lemmas :: "lib \<Rightarrow> string \<Rightarrow> bool" where
  "stable_lemmas L text \<longleftrightarrow>
     word_tokenize L (str_lower L (preprocess L text)) = lemmas_of L text \<and>
     list_all (\<lambda>y. keep_token L y \<and> lemmatize L y = y) (lemmas_of L text)"

section \<open>Notions used in the statements\<close>

text \<open>The terms \<open>get_top_contributing_terms\<close> returns for two rows of one matrix when
  every index of the argsort is in range: at most three, with strictly positive product,
  in the order of the reversed argsort.\<close>

definition top_terms_of :: "lib \<Rightarrow> real list \<Rightarrow> real list \<Rightarrow> string list \<Rightarrow> string list" where
  "top_terms_of L q d names =
     map (\<lambda>i. names ! i)
       (take 3 (filter (\<lambda>i. 0 < map2 (*) q d ! i) (rev (argsort L (map2 (*) q d)))))"

text \<open>The list \<^verbatim>\<open>scores\<close> of the vector-space path before it is sorted.\<close>

definition vector_scores :: "lib \<Rightarrow> student \<Rightarrow> 'a internship_scheme list \<Rightarrow> error + 'a scored list" where
  "vector_scores L student internships =
     (let query = make_query L student;
          docs = make_docs L internships
      in bind_err (fit_transform L (docs @ [query])) (\<lambda>tfidf_matrix.
           let query_vec = dense_row tfidf_matrix (length docs);
               similarities =
                 map (\<lambda>i. cosine_similarity L query_vec (dense_row tfidf_matrix i))
                   [0..<length docs]
           in bind_err (max_stipend_of internships) (\<lambda>max_stipend.
                score_loop L tfidf_matrix query_vec similarities max_stipend 0 internships)))"

section \<open>Sample inputs\<close>

text \<open>Postings, students and generator outputs on which the theorems are instantiated.
  The first two postings are those of the specification's scenario.\<close>

definition backend_developer :: internship where
  "backend_developer =
     \<lparr>title = Some ''Backend Developer'', description = Some ''Web service development'',
      required_skills = Some ''python flask sql'', popularity = Some (PInt 80),
      rating = Some (PFloat 4.2), company_prestige = Some (PInt 7),
      stipend = Some (PInt 10000)\<rparr>"

definition graphic_design :: internship where
  "graphic_design =
     \<lparr>title = Some ''Graphic Design Intern'', description = Some ''Poster design'',
      required_skills = Some ''photoshop illustrator'', popularity = Some (PInt 90),
      rating = Some (PFloat 4.8), company_prestige = Some (PInt 8),
      stipend = Some (PInt 15000)\<rparr>"

definition python_alpha :: internship where
  "python_alpha =
     \<lparr>title = Some ''Python Alpha'', description = Some '''',
      required_skills = Some '''', popularity = Some (PInt 80),
      rating = Some (PInt 4), company_prestige = Some (PInt 6),
      stipend = Some (PInt 0)\<rparr>"

definition python_beta :: internship where
  "python_beta =
     \<lparr>title = Some ''Python Beta'', description = Some '''',
      required_skills = Some '''', popularity = Some (PInt 80),
      rating = Some (PInt 4), company_prestige = Some (PInt 6),
      stipend = Some (PInt 0)\<rparr>"

text \<open>Three postings whose fallback scores are equal over the reals (0.548) and differ
  in binary64: the first and the third get 0.5479999999999999, the second 0.548.\<close>

definition data_analyst :: internship where
  "data_analyst =
     \<lparr>title = Some ''Data Analyst'', description = Some ''Reporting'',
      required_skills = Some ''sql excel'', popularity = Some (PInt 44),
      rating = Some (PFloat (round_double (38 / 10))), company_prestige = Some (PInt 5),
      stipend = Some (PInt 5000)\<rparr>"

definition cloud_engineer :: internship where
  "cloud_engineer =
     \<lparr>title = Some ''Cloud Engineer'', description = Some ''Deployment'',
      required_skills = Some ''linux docker'', popularity = Some (PInt 40),
      rating = Some (PFloat (round_double (38 / 10))), company_prestige = Some (PInt 6),
      stipend = Some (PInt 5000)\<rparr>"

definition data_analyst_remote :: internship where
  "data_analyst_remote = data_analyst\<lparr>title := Some ''Data Analyst Remote''\<rparr>"

definition stop_word_student :: student where
  "stop_word_student = \<lparr>skills = Some ''the and of'', interests = None\<rparr>"

definition machine_learning_student :: student where
  "machine_learning_student = \<lparr>skills = Some ''Machine Learning'', interests = None\<rparr>"

definition flask_student :: student where
  "flask_student = \<lparr>skills = Some ''Python'', interests = Some ''Flask''\<rparr>"

definition python_student :: student where
  "python_student = \<lparr>skills = Some ''Python'', interests = None\<rparr>"

definition draws_up :: "nat \<Rightarrow> real" where
  "draws_up i = real i / (real i + 1)"

definition draws_down :: "nat \<Rightarrow> real" where
  "draws_down i = 1 / (2 + real i)"

text \<open>The explanation of a posting whose only shared term is \<^verbatim>\<open>python\<close>.\<close>

definition python_explanation :: explanation where
  "python_explanation =
     [Line ([CHR 0xE2, CHR 0x80, CHR 0xA2] @ '' Keyword Match: python''), Similarity_Score 1,
      Popularity_Score (PInt 80), Prestige_Score (PInt 6)]"

text \<open>A posting whose popularity column is NULL.\<close>

definition null_popularity :: internship where
  "null_popularity = python_alpha\<lparr>popularity := Some PNone\<rparr>"

text \<open>The weight matrix of the Backend Developer posting and the query
  \<^verbatim>\<open>python flask\<close>.\<close>

definition flask_matrix :: tfidf where
  "flask_matrix =
     projr (fit_transform sample_lib
              (make_docs sample_lib [backend_developer] @ [make_query sample_lib flask_student]))"

text \<open>The explanation the engine gives for that posting.\<close>

definition flask_explanation :: explanation where
  "flask_explanation =
     [Line ([CHR 0xE2, CHR 0x80, CHR 0xA2] @ '' Keyword Match: python flask, python, flask''), Similarity_Score 1,
      Popularity_Score (PInt 80), Prestige_Score (PInt 7)]"

section \<open>Basic facts about the Python operations\<close>

lemma blank_sample_lib: "blank sample_lib s \<longleftrightarrow> ascii_strip s = []"
  by (simp add: blank_def sample_lib_def)

lemma bind_err_Inr [simp]: "bind_err (Inr x) f = f x"
  by (simp add: bind_err_def)

lemma bind_err_Inl [simp]: "bind_err (Inl e) f = Inl e"
  by (simp add: bind_err_def)

lemma bind_err_eq_Inr: "bind_err m f = Inr y \<longleftrightarrow> (\<exists>x. m = Inr x \<and> f x = Inr y)"
  by (cases m) simp_all

lemma bind_err_eq_Inl: "bind_err m f = Inl e \<longleftrightarrow> m = Inl e \<or> (\<exists>x. m = Inr x \<and> f x = Inl e)"
  by (cases m) simp_all

lemma py_slice_to_nonneg: "0 \<le> k \<Longrightarrow> py_slice_to xs k = take (nat k) xs"
  by (simp add: py_slice_to_def)

lemma length_py_slice_to: "0 \<le> k \<Longrightarrow> length (py_slice_to xs k) = min (nat k) (length xs)"
  by (simp add: py_slice_to_def)

lemma map_py_slice_to: "map f (py_slice_to xs k) = py_slice_to (map f xs) k"
  by (simp add: py_slice_to_def take_map)

lemma length_py_sorted_desc [simp]: "length (py_sorted_desc k xs) = length xs"
  by (simp add: py_sorted_desc_def)

lemma mset_py_sorted_desc [simp]: "mset (py_sorted_desc k xs) = mset xs"
  by (simp add: py_sorted_desc_def)

lemma set_py_sorted_desc [simp]: "set (py_sorted_desc k xs) = set xs"
  by (simp add: py_sorted_desc_def)

lemma sorted_py_sorted_desc: "sorted_wrt (\<ge>) (map k (py_sorted_desc k xs))"
proof -
  have "sorted (map k (sort_key k (rev xs)))" by simp
  then have "sorted (rev (map k (py_sorted_desc k xs)))"
    by (simp add: py_sorted_desc_def rev_map)
  then show ?thesis
    by (simp add: sorted_wrt_rev)
qed

lemma stable_py_sorted_desc:
  "filter (\<lambda>x. k x = v) (py_sorted_desc k xs) = filter (\<lambda>x. k x = v) xs"
proof -
  have "filter (\<lambda>x. k x = v) (sort_key k (rev xs)) = filter (\<lambda>x. k x = v) (rev xs)"
    using stable_sort_key_sort_key unfolding stable_sort_key_def by blast
  then show ?thesis
    by (simp add: py_sorted_desc_def rev_filter [symmetric])
qed

lemma insort_key_map:
  "insort_key f (g x) (map g xs) = map g (insort_key (\<lambda>a. f (g a)) x xs)"
  by (induction xs) simp_all

lemma sort_key_map: "sort_key f (map g xs) = map g (sort_key (\<lambda>a. f (g a)) xs)"
  by (induction xs) (simp_all add: insort_key_map)

lemma py_sorted_desc_map:
  "py_sorted_desc f (map g xs) = map g (py_sorted_desc (\<lambda>a. f (g a)) xs)"
  by (simp add: py_sorted_desc_def rev_map sort_key_map)

section \<open>The normalizer is a fixed point only on stable lemmas\<close>

lemma preprocess_lemmas_of: "preprocess L text = py_join '' '' (lemmas_of L text)"
  by (simp add: preprocess_def lemmas_of_def)

lemma filter_id_list_all: "list_all P xs \<Longrightarrow> filter P xs = xs"
  by (induction xs) simp_all

lemma map_id_list_all: "list_all (\<lambda>y. f y = y) xs \<Longrightarrow> map f xs = xs"
  by (induction xs) simp_all

text \<open>
  Claim C5, as amended. \<open>preprocess (preprocess x) = preprocess x\<close> holds for every
  text whose lemmas are stable: the tokenizer splits \<open>preprocess x\<close> back into the
  lemmas it was joined from, and each of these lemmas passes the token filter and is its
  own lemma.
\<close>

theorem preprocess_fixed_point_if_stable:
  assumes "stable_lemmas L text"
  shows "preprocess L (preprocess L text) = preprocess L text"
proof -
  let ?ys = "lemmas_of L text"
  from assms have tok: "word_tokenize L (str_lower L (preprocess L text)) = ?ys"
    and all: "list_all (\<lambda>y. keep_token L y \<and> lemmatize L y = y) ?ys"
    by (simp_all add: stable_lemmas_def)
  from all have "list_all (keep_token L) ?ys" and "list_all (\<lambda>y. lemmatize L y = y) ?ys"
    by (simp_all add: list_all_iff)
  then have "filter (keep_token L) ?ys = ?ys" and "map (lemmatize L) ?ys = ?ys"
    by (simp_all add: filter_id_list_all map_id_list_all)
  then have "lemmas_of L (preprocess L text) = ?ys"
    using tok by (simp add: lemmas_of_def)
  then show ?thesis
    by (simp add: preprocess_lemmas_of)
qed

lemmas string_evals = ascii_lower_def lower_char_def ascii_isalnum_def ascii_isdigit_def
  is_alpha_char_def is_digit_char_def is_space_char_def

lemmas preprocess_evals = preprocess_def lemmas_of_def keep_token_def sample_lib_def string_evals

theorem preprocess_fixed_point_witness:
  "stable_lemmas sample_lib ''Python and Flask skills 42 ml'' \<and>
   preprocess sample_lib ''Python and Flask skills 42 ml'' = ''python flask skill'' \<and>
   preprocess sample_lib ''python flask skill'' = ''python flask skill''"
proof -
  have p: "preprocess sample_lib ''Python and Flask skills 42 ml'' = ''python flask skill''"
    by (simp add: preprocess_evals)
  have h: "stable_lemmas sample_lib ''Python and Flask skills 42 ml''"
    unfolding stable_lemmas_def p by (simp add: preprocess_evals)
  show ?thesis
    using h p preprocess_fixed_point_if_stable [OF h] by simp
qed

text \<open>
  Claim C5 as stated fails: the plural \<^verbatim>\<open>cans\<close> passes the filter and is lemmatized
  to \<^verbatim>\<open>can\<close>, which is a stop word, so a second pass returns the empty string.
\<close>

theorem preprocess_not_idempotent:
  "preprocess sample_lib (preprocess sample_lib ''cans'') \<noteq> preprocess sample_lib ''cans''"
proof -
  have 1: "preprocess sample_lib ''cans'' = ''can''"
    by (simp add: preprocess_evals)
  have 2: "preprocess sample_lib ''can'' = ''''"
    by (simp add: preprocess_evals)
  show ?thesis by (simp add: 1 2)
qed

section \<open>The fallback path\<close>

lemma num_of_py_get: "numeric field \<Longrightarrow> num_of (py_get field) = Some (signal field)"
  by (cases field rule: numeric.cases) (simp_all add: py_get_def)

lemma py_truediv_numeric:
  "numeric field \<Longrightarrow> d \<noteq> 0 \<Longrightarrow> py_truediv (py_get field) (PInt d) = Inr (signal field / of_int d)"
  by (simp add: py_truediv_def num_of_py_get)

lemma fallback_score_numeric:
  assumes "numeric (popularity c)" "numeric (rating c)" "numeric (company_prestige c)"
  shows "fallback_score c = Inr (spec_fallback c)"
  using assms
  by (simp add: fallback_score_def spec_fallback_def float_truediv_def float_add_def
      float_mul_def py_truediv_numeric mult.commute)

lemma fallback_scores_numeric:
  "\<forall>c\<in>set cs. numeric (popularity c) \<and> numeric (rating c) \<and> numeric (company_prestige c) \<Longrightarrow>
   fallback_scores cs = Inr (map (\<lambda>c. (spec_fallback c, c, fallback_explanation)) cs)"
  by (induction cs) (simp_all add: fallback_score_numeric)

lemma fallback_scores_Inr:
  "fallback_scores cs = Inr scores \<Longrightarrow>
   list_all2 (\<lambda>c t. fallback_score c = Inr (fst t) \<and> snd t = (c, fallback_explanation)) cs scores"
proof (induction cs arbitrary: scores)
  case Nil
  then show ?case by simp
next
  case (Cons c cs)
  from Cons.prems obtain s rest where s: "fallback_score c = Inr s"
    and rest: "fallback_scores cs = Inr rest" and eq: "scores = (s, c, fallback_explanation) # rest"
    by (auto simp: bind_err_eq_Inr)
  with Cons.IH [OF rest] show ?case by simp
qed

lemma filter_scores_in_order:
  "list_all2 (\<lambda>c t. score c = Inr (fst t) \<and> snd t = (c, e)) cs scores \<Longrightarrow>
   map (fst \<circ> snd) (filter (\<lambda>t. fst t = v) scores) = filter (\<lambda>c. score c = Inr v) cs"
  by (induction rule: list_all2_induct) auto

lemma keep_token_lib_update [simp]:
  "keep_token (L\<lparr>fit_transform := f, cosine_similarity := cs, argsort := a\<rparr>) = keep_token L"
  by (simp add: fun_eq_iff keep_token_def)

lemma blank_lib_update [simp]:
  "blank (L\<lparr>fit_transform := f, cosine_similarity := cs, argsort := a\<rparr>) = blank L"
  by (simp add: fun_eq_iff blank_def)

lemma make_query_lib_update [simp]:
  "make_query (L\<lparr>fit_transform := f, cosine_similarity := cs, argsort := a\<rparr>) student =
   make_query L student"
  by (simp add: make_query_def preprocess_def)

lemma recommend_fallback:
  assumes "internships \<noteq> []" "blank L (make_query L student)"
  shows "recommendInternship L draws student internships top_n =
         bind_err (fallback_scores internships)
           (\<lambda>scores. Inr (py_slice_to (py_sorted_desc fst scores) top_n))"
  using assms by (simp add: recommendInternship_def Let_def)

text \<open>Evaluating the rounding at a number whose binary exponent is known.\<close>

lemma floor_log2_between:
  assumes "2 powi k \<le> x" "x < 2 powi (k + 1)"
  shows "\<lfloor>log 2 x\<rfloor> = k"
proof -
  have "(0::real) < 2 powi k" by simp
  with assms(1) have pos: "0 < x" by linarith
  have "(2::real) powr real_of_int k = 2 powi k"
    by (simp add: powr_real_of_int')
  moreover have "(2::real) powr real_of_int (k + 1) = 2 powi (k + 1)"
    using powr_real_of_int' [of "2::real" "k + 1"] by simp
  ultimately have "2 powr real_of_int k \<le> x \<and> x < 2 powr real_of_int (k + 1)"
    using assms by simp
  then show ?thesis
    using pos floor_log_eq_powr_iff [of x 2 k] by simp
qed

lemma round_double_between:
  assumes "2 powi k \<le> \<bar>x\<bar>" "\<bar>x\<bar> < 2 powi (k + 1)"
  shows "round_double x = of_int (round_half_even (x / 2 powi (k - 52))) * 2 powi (k - 52)"
proof -
  have "(0::real) < 2 powi k" by simp
  with assms(1) have "x \<noteq> 0" by linarith
  then show ?thesis
    by (simp add: round_double_def Let_def floor_log2_between [OF assms])
qed

lemma spec_fallback_eval:
  assumes "signal (popularity c) = sp" "signal (rating c) = sr" "signal (company_prestige c) = sg"
    and "round_double (5 / 10) = h" "round_double (3 / 10) = t" "round_double (2 / 10) = w"
    and "round_double (sp / 100) = p" "round_double (sr / 5) = r" "round_double (sg / 10) = g"
    and "round_double (h * p) = a" "round_double (t * r) = b" "round_double (w * g) = d"
    and "round_double (a + b) = ab" "round_double (ab + d) = s"
  shows "spec_fallback c = s"
  unfolding spec_fallback_def assms ..

text \<open>
  Claim C2. For a non-empty list of candidates whose popularity, rating and prestige are
  numbers (or missing) and a query that is blank after normalization,
  \<open>recommendInternship\<close> returns the candidates with the score
  \<open>0.5 (popularity/100) + 0.3 (rating/5) + 0.2 (prestige/10)\<close>, computed in binary64, and
  the one-line explanation \<^verbatim>\<open>Recommended based on general popularity and ratings.\<close>,
  sorted by descending score and cut to the first \<open>top_n\<close>; the result is the same
  whatever the vectorizer, the similarity and the argsort of the library are.
\<close>

theorem fallback_path_scores:
  assumes "internships \<noteq> []"
    and "blank L (make_query L student)"
    and "\<forall>c\<in>set internships.
           numeric (popularity c) \<and> numeric (rating c) \<and> numeric (company_prestige c)"
  shows "\<exists>ranked.
           ranked = py_sorted_desc fst
                      (map (\<lambda>c. (spec_fallback c, c,
                                  [Line ''Recommended based on general popularity and ratings.'']))
                         internships) \<and>
           recommendInternship L draws student internships top_n =
             Inr (py_slice_to ranked top_n) \<and>
           sorted_wrt (\<ge>) (map fst ranked) \<and>
           (0 \<le> top_n \<longrightarrow> py_slice_to ranked top_n = take (nat top_n) ranked) \<and>
           (\<forall>f cs a.
              recommendInternship (L\<lparr>fit_transform := f, cosine_similarity := cs, argsort := a\<rparr>)
                draws student internships top_n =
              recommendInternship L draws student internships top_n)"
proof -
  have "recommendInternship L' draws student internships top_n =
        Inr (py_slice_to (py_sorted_desc fst
               (map (\<lambda>c. (spec_fallback c, c,
                           [Line ''Recommended based on general popularity and ratings.'']))
                  internships)) top_n)"
    if "blank L' (make_query L' student)" for L'
    using that assms(1,3)
    by (simp add: recommend_fallback fallback_scores_numeric fallback_explanation_def)
  with assms(2) show ?thesis
    by (simp add: sorted_py_sorted_desc py_slice_to_nonneg)
qed

lemma stop_word_query: "make_query sample_lib stop_word_student = []"
  by (simp add: make_query_def stop_word_student_def get_text_def preprocess_evals)

lemma stop_word_blank: "blank sample_lib (make_query sample_lib stop_word_student)"
  by (simp add: stop_word_query blank_sample_lib ascii_strip_def)

text \<open>The binary64 arithmetic of the three sample postings, operation by operation.\<close>

lemma float_lit_half: "round_double (5 / 10) = 1 / 2"
  by (subst round_double_between [where k = "-1"])
    (simp_all add: round_half_even_def power_int_minus)

lemma float_lit_three_tenths: "round_double (3 / 10) = 5404319552844595 / 18014398509481984"
  by (subst round_double_between [where k = "-2"])
    (simp_all add: round_half_even_def power_int_minus)

lemma float_lit_two_tenths: "round_double (2 / 10) = 3602879701896397 / 18014398509481984"
  by (subst round_double_between [where k = "-3"])
    (simp_all add: round_half_even_def power_int_minus)

lemma float_lit_38: "round_double (38 / 10) = 4278419646001971 / 1125899906842624"
  by (subst round_double_between [where k = "1"])
    (simp_all add: round_half_even_def power_int_minus)

lemma analyst_popularity: "round_double (44 / 100) = 7926335344172073 / 18014398509481984"
  by (subst round_double_between [where k = "-2"])
    (simp_all add: round_half_even_def power_int_minus)

lemma analyst_rating: "round_double (4278419646001971 / 1125899906842624 / 5) = 3422735716801577 / 4503599627370496"
  by (subst round_double_between [where k = "-1"])
    (simp_all add: round_half_even_def power_int_minus)

lemma analyst_prestige: "round_double (5 / 10) = 1 / 2"
  by (subst round_double_between [where k = "-1"])
    (simp_all add: round_half_even_def power_int_minus)

lemma analyst_a: "round_double ((1 / 2) * (7926335344172073 / 18014398509481984)) = 7926335344172073 / 36028797018963968"
  by (subst round_double_between [where k = "-3"])
    (simp_all add: round_half_even_def power_int_minus)

lemma analyst_b: "round_double ((5404319552844595 / 18014398509481984) * (3422735716801577 / 4503599627370496)) = 1026820715040473 / 4503599627370496"
  by (subst round_double_between [where k = "-3"])
    (simp_all add: round_half_even_def power_int_minus)

lemma analyst_d: "round_double ((3602879701896397 / 18014398509481984) * (1 / 2)) = 3602879701896397 / 36028797018963968"
  by (subst round_double_between [where k = "-4"])
    (simp_all add: round_half_even_def power_int_minus)

lemma analyst_ab: "round_double ((7926335344172073 / 36028797018963968) + (1026820715040473 / 4503599627370496)) = 1008806316530991 / 2251799813685248"
  by (subst round_double_between [where k = "-2"])
    (simp_all add: round_half_even_def power_int_minus)

lemma analyst_score: "round_double ((1008806316530991 / 2251799813685248) + (3602879701896397 / 36028797018963968)) = 4935945191598063 / 9007199254740992"
  by (subst round_double_between [where k = "-1"])
    (simp_all add: round_half_even_def power_int_minus)

lemma cloud_popularity: "round_double (40 / 100) = 3602879701896397 / 9007199254740992"
  by (subst round_double_between [where k = "-2"])
    (simp_all add: round_half_even_def power_int_minus)

lemma cloud_rating: "round_double (4278419646001971 / 1125899906842624 / 5) = 3422735716801577 / 4503599627370496"
  by (subst round_double_between [where k = "-1"])
    (simp_all add: round_half_even_def power_int_minus)

lemma cloud_prestige: "round_double (6 / 10) = 5404319552844595 / 9007199254740992"
  by (subst round_double_between [where k = "-1"])
    (simp_all add: round_half_even_def power_int_minus)

lemma cloud_a: "round_double ((1 / 2) * (3602879701896397 / 9007199254740992)) = 3602879701896397 / 18014398509481984"
  by (subst round_double_between [where k = "-3"])
    (simp_all add: round_half_even_def power_int_minus)

lemma cloud_b: "round_double ((5404319552844595 / 18014398509481984) * (3422735716801577 / 4503599627370496)) = 1026820715040473 / 4503599627370496"
  by (subst round_double_between [where k = "-3"])
    (simp_all add: round_half_even_def power_int_minus)

lemma cloud_d: "round_double ((3602879701896397 / 18014398509481984) * (5404319552844595 / 9007199254740992)) = 1080863910568919 / 9007199254740992"
  by (subst round_double_between [where k = "-4"])
    (simp_all add: round_half_even_def power_int_minus)

lemma cloud_ab: "round_double ((3602879701896397 / 18014398509481984) + (1026820715040473 / 4503599627370496)) = 7710162562058289 / 18014398509481984"
  by (subst round_double_between [where k = "-2"])
    (simp_all add: round_half_even_def power_int_minus)

lemma cloud_score: "round_double ((7710162562058289 / 18014398509481984) + (1080863910568919 / 9007199254740992)) = 308496574474879 / 562949953421312"
  by (subst round_double_between [where k = "-1"])
    (simp_all add: round_half_even_def power_int_minus)


lemma analyst_signals:
  "signal (popularity data_analyst) = 44"
  "signal (rating data_analyst) = 4278419646001971 / 1125899906842624"
  "signal (company_prestige data_analyst) = 5"
  using float_lit_38 by (simp_all add: data_analyst_def)

lemma cloud_signals:
  "signal (popularity cloud_engineer) = 40"
  "signal (rating cloud_engineer) = 4278419646001971 / 1125899906842624"
  "signal (company_prestige cloud_engineer) = 6"
  using float_lit_38 by (simp_all add: cloud_engineer_def)

lemma remote_signals:
  "signal (popularity data_analyst_remote) = 44"
  "signal (rating data_analyst_remote) = 4278419646001971 / 1125899906842624"
  "signal (company_prestige data_analyst_remote) = 5"
  using float_lit_38 by (simp_all add: data_analyst_remote_def data_analyst_def)

lemma analyst_fallback: "spec_fallback data_analyst = (4935945191598063 / 9007199254740992)"
  by (rule spec_fallback_eval [OF analyst_signals float_lit_half float_lit_three_tenths
        float_lit_two_tenths analyst_popularity analyst_rating analyst_prestige
        analyst_a analyst_b analyst_d analyst_ab analyst_score])

lemma cloud_fallback: "spec_fallback cloud_engineer = (308496574474879 / 562949953421312)"
  by (rule spec_fallback_eval [OF cloud_signals float_lit_half float_lit_three_tenths
        float_lit_two_tenths cloud_popularity cloud_rating cloud_prestige
        cloud_a cloud_b cloud_d cloud_ab cloud_score])

lemma remote_fallback: "spec_fallback data_analyst_remote = (4935945191598063 / 9007199254740992)"
  by (rule spec_fallback_eval [OF remote_signals float_lit_half float_lit_three_tenths
        float_lit_two_tenths analyst_popularity analyst_rating analyst_prestige
        analyst_a analyst_b analyst_d analyst_ab analyst_score])

lemma sample_numeric:
  "numeric (popularity data_analyst) \<and> numeric (rating data_analyst) \<and>
   numeric (company_prestige data_analyst)"
  "numeric (popularity cloud_engineer) \<and> numeric (rating cloud_engineer) \<and>
   numeric (company_prestige cloud_engineer)"
  "numeric (popularity data_analyst_remote) \<and> numeric (rating data_analyst_remote) \<and>
   numeric (company_prestige data_analyst_remote)"
  by (simp_all add: data_analyst_def cloud_engineer_def data_analyst_remote_def)

theorem fallback_path_scores_witness:
  "[data_analyst, cloud_engineer] \<noteq> [] \<and>
   blank sample_lib (make_query sample_lib stop_word_student) \<and>
   list_all (\<lambda>c. numeric (popularity c) \<and> numeric (rating c) \<and> numeric (company_prestige c))
     [data_analyst, cloud_engineer] \<and>
   spec_fallback data_analyst = (4935945191598063 / 9007199254740992) \<and>
   spec_fallback cloud_engineer = (308496574474879 / 562949953421312) \<and>
   recommendInternship sample_lib draws_up stop_word_student
     [data_analyst, cloud_engineer] 1 =
   Inr [((308496574474879 / 562949953421312), cloud_engineer,
         [Line ''Recommended based on general popularity and ratings.''])]"
proof -
  have n: "\<forall>c\<in>set [data_analyst, cloud_engineer].
      numeric (popularity c) \<and> numeric (rating c) \<and> numeric (company_prestige c)"
    by (simp add: sample_numeric)
  from fallback_path_scores [OF _ stop_word_blank n, of draws_up 1]
  have "recommendInternship sample_lib draws_up stop_word_student
     [data_analyst, cloud_engineer] 1 =
   Inr [((308496574474879 / 562949953421312), cloud_engineer,
         [Line ''Recommended based on general popularity and ratings.''])]"
    by (simp add: analyst_fallback cloud_fallback py_sorted_desc_def py_slice_to_def)
  then show ?thesis
    by (simp add: stop_word_blank sample_numeric analyst_fallback cloud_fallback)
qed

text \<open>
  Claim C10. On the fallback path (candidates supplied, query blank after
  normalization) the result does not depend on the random generator, and it is a prefix
  of a ranking that is sorted by descending score and lists the candidates of each
  score, a binary64 number, in the order of the input list.
\<close>

theorem fallback_path_stable:
  assumes "internships \<noteq> []"
    and "blank L (make_query L student)"
  shows "recommendInternship L draws student internships top_n =
           recommendInternship L draws' student internships top_n \<and>
         (\<forall>res. recommendInternship L draws student internships top_n = Inr res \<longrightarrow>
            (\<exists>ranked.
               res = py_slice_to ranked top_n \<and>
               sorted_wrt (\<ge>) (map fst ranked) \<and>
               (\<forall>v. map (fst \<circ> snd) (filter (\<lambda>t. fst t = v) ranked) =
                    filter (\<lambda>c. fallback_score c = Inr v) internships) \<and>
               ((\<forall>c\<in>set internships.
                   numeric (popularity c) \<and> numeric (rating c) \<and>
                   numeric (company_prestige c)) \<longrightarrow>
                (\<forall>v. map (fst \<circ> snd) (filter (\<lambda>t. fst t = v) ranked) =
                     filter (\<lambda>c. spec_fallback c = v) internships))))"
proof (intro conjI allI impI)
  show "recommendInternship L draws student internships top_n =
        recommendInternship L draws' student internships top_n"
    using assms by (simp add: recommend_fallback)
next
  fix res
  assume "recommendInternship L draws student internships top_n = Inr res"
  with assms obtain scores where sc: "fallback_scores internships = Inr scores"
    and res: "res = py_slice_to (py_sorted_desc fst scores) top_n"
    by (auto simp: recommend_fallback bind_err_eq_Inr)
  have order: "map (fst \<circ> snd) (filter (\<lambda>t. fst t = v) (py_sorted_desc fst scores)) =
        filter (\<lambda>c. fallback_score c = Inr v) internships" for v
    using filter_scores_in_order [OF fallback_scores_Inr [OF sc]]
    by (simp add: stable_py_sorted_desc)
  have spec: "\<forall>v. map (fst \<circ> snd) (filter (\<lambda>t. fst t = v) (py_sorted_desc fst scores)) =
        filter (\<lambda>c. spec_fallback c = v) internships"
    if num: "\<forall>c\<in>set internships.
           numeric (popularity c) \<and> numeric (rating c) \<and> numeric (company_prestige c)"
  proof
    fix v
    have "filter (\<lambda>c. fallback_score c = Inr v) internships =
          filter (\<lambda>c. spec_fallback c = v) internships"
      using num by (intro filter_cong refl) (simp add: fallback_score_numeric)
    with order [of v]
    show "map (fst \<circ> snd) (filter (\<lambda>t. fst t = v) (py_sorted_desc fst scores)) =
        filter (\<lambda>c. spec_fallback c = v) internships"
      by simp
  qed
  show "\<exists>ranked.
               res = py_slice_to ranked top_n \<and>
               sorted_wrt (\<ge>) (map fst ranked) \<and>
               (\<forall>v. map (fst \<circ> snd) (filter (\<lambda>t. fst t = v) ranked) =
                    filter (\<lambda>c. fallback_score c = Inr v) internships) \<and>
               ((\<forall>c\<in>set internships.
                   numeric (popularity c) \<and> numeric (rating c) \<and>
                   numeric (company_prestige c)) \<longrightarrow>
                (\<forall>v. map (fst \<circ> snd) (filter (\<lambda>t. fst t = v) ranked) =
                     filter (\<lambda>c. spec_fallback c = v) internships))"
  proof (intro exI [of _ "py_sorted_desc fst scores"] conjI impI)
    show "res = py_slice_to (py_sorted_desc fst scores) top_n" by (rule res)
    show "sorted_wrt (\<ge>) (map fst (py_sorted_desc fst scores))"
      by (rule sorted_py_sorted_desc)
    show "\<forall>v. map (fst \<circ> snd) (filter (\<lambda>t. fst t = v) (py_sorted_desc fst scores)) =
        filter (\<lambda>c. fallback_score c = Inr v) internships"
      using order by blast
  next
    assume "\<forall>c\<in>set internships.
           numeric (popularity c) \<and> numeric (rating c) \<and> numeric (company_prestige c)"
    then show "\<forall>v. map (fst \<circ> snd) (filter (\<lambda>t. fst t = v) (py_sorted_desc fst scores)) =
        filter (\<lambda>c. spec_fallback c = v) internships"
      by (rule spec)
  qed
qed

lemma sample_fallback_ranking:
  "recommendInternship sample_lib d stop_word_student
     [data_analyst, cloud_engineer, data_analyst_remote] 5 =
   Inr [((308496574474879 / 562949953421312), cloud_engineer, fallback_explanation),
        ((4935945191598063 / 9007199254740992), data_analyst, fallback_explanation),
        ((4935945191598063 / 9007199254740992), data_analyst_remote, fallback_explanation)]"
  by (simp add: recommend_fallback stop_word_blank fallback_score_numeric sample_numeric
      analyst_fallback cloud_fallback remote_fallback py_sorted_desc_def py_slice_to_def)

theorem fallback_path_stable_witness:
  "[data_analyst, cloud_engineer, data_analyst_remote] \<noteq> [] \<and>
   blank sample_lib (make_query sample_lib stop_word_student) \<and>
   list_all (\<lambda>c. numeric (popularity c) \<and> numeric (rating c) \<and> numeric (company_prestige c))
     [data_analyst, cloud_engineer, data_analyst_remote] \<and>
   recommendInternship sample_lib draws_up stop_word_student
     [data_analyst, cloud_engineer, data_analyst_remote] 5 =
   recommendInternship sample_lib draws_down stop_word_student
     [data_analyst, cloud_engineer, data_analyst_remote] 5 \<and>
   recommendInternship sample_lib draws_up stop_word_student
     [data_analyst, cloud_engineer, data_analyst_remote] 5 =
   Inr [((308496574474879 / 562949953421312), cloud_engineer,
         [Line ''Recommended based on general popularity and ratings.'']),
        ((4935945191598063 / 9007199254740992), data_analyst,
         [Line ''Recommended based on general popularity and ratings.'']),
        ((4935945191598063 / 9007199254740992), data_analyst_remote,
         [Line ''Recommended based on general popularity and ratings.''])] \<and>
   filter (\<lambda>c. spec_fallback c = (4935945191598063 / 9007199254740992))
     [data_analyst, cloud_engineer, data_analyst_remote] =
   [data_analyst, data_analyst_remote]"
proof -
  from fallback_path_stable [OF _ stop_word_blank,
      of "[data_analyst, cloud_engineer, data_analyst_remote]" draws_up 5 draws_down]
  have "recommendInternship sample_lib draws_up stop_word_student
     [data_analyst, cloud_engineer, data_analyst_remote] 5 =
   recommendInternship sample_lib draws_down stop_word_student
     [data_analyst, cloud_engineer, data_analyst_remote] 5"
    by simp
  then show ?thesis
    by (simp add: sample_fallback_ranking stop_word_blank sample_numeric analyst_fallback
        cloud_fallback remote_fallback fallback_explanation_def)
qed

section \<open>The largest stipend\<close>

lemma py_gt_numeric:
  "num_of a = Some x \<Longrightarrow> num_of b = Some y \<Longrightarrow> py_gt a b = Inr (y < x)"
  by (cases a; cases b) simp_all

lemma py_gt_error: "py_gt a b = Inl e \<Longrightarrow> e = TypeError"
  by (cases a; cases b) (simp_all split: option.splits)

lemma py_max_from_error: "py_max_from m xs = Inl e \<Longrightarrow> e = TypeError"
proof (induction xs arbitrary: m)
  case Nil
  then show ?case by simp
next
  case (Cons x xs)
  then show ?case
    by (auto split: sum.splits dest: py_gt_error)
qed

lemma py_max_from_numeric:
  assumes "num_of m = Some a" and "\<forall>x\<in>set xs. num_of x \<noteq> None"
  shows "\<exists>v. py_max_from m xs = Inr v \<and>
             num_of v = Some (Max (insert a ((\<lambda>x. the (num_of x)) ` set xs)))"
  using assms
proof (induction xs arbitrary: m a)
  case Nil
  then show ?case by simp
next
  case (Cons x xs)
  from Cons.prems obtain b where b: "num_of x = Some b" by auto
  let ?m = "if a < b then x else m"
  have m': "num_of ?m = Some (max a b)"
    using b Cons.prems(1) by (simp add: max_def)
  from Cons.IH [OF m'] Cons.prems(2)
  obtain v where v: "py_max_from ?m xs = Inr v"
    and nv: "num_of v = Some (Max (insert (max a b) ((\<lambda>x. the (num_of x)) ` set xs)))"
    by auto
  have "Max (insert (max a b) ((\<lambda>x. the (num_of x)) ` set xs)) =
        Max (insert a (insert b ((\<lambda>x. the (num_of x)) ` set xs)))"
    by (cases "xs = []") (simp_all add: max.assoc)
  with v nv b Cons.prems(1) show ?case
    by (simp add: py_gt_numeric)
qed

lemma py_eq_zero_iff: "py_eq_zero v \<longleftrightarrow> num_of v = Some 0"
  by (cases v) simp_all

lemma max_stipend_of_nonzero: "max_stipend_of cs = Inr M \<Longrightarrow> num_of M \<noteq> Some 0"
  by (auto simp: max_stipend_of_def bind_err_eq_Inr py_eq_zero_iff split: if_splits)

lemma max_stipend_of_error: "cs \<noteq> [] \<Longrightarrow> max_stipend_of cs = Inl e \<Longrightarrow> e = TypeError"
  by (cases cs) (auto simp: max_stipend_of_def bind_err_eq_Inl dest: py_max_from_error)

lemma max_stipend_of_numeric:
  assumes "cs \<noteq> []" and "\<forall>c\<in>set cs. numeric (stipend c)"
  shows "\<exists>M. max_stipend_of cs = Inr M \<and> num_of M = Some (spec_max_stipend cs)"
proof -
  from assms(1) obtain c rest where cs: "cs = c # rest" by (cases cs) auto
  let ?vals = "map (\<lambda>c. py_get (stipend c)) rest"
  have "num_of (py_get (stipend c)) = Some (signal (stipend c))"
    using assms(2) cs by (simp add: num_of_py_get)
  moreover have "\<forall>x\<in>set ?vals. num_of x \<noteq> None"
    using assms(2) cs by (auto simp: num_of_py_get)
  ultimately obtain v where v: "py_max_from (py_get (stipend c)) ?vals = Inr v"
    and nv: "num_of v =
      Some (Max (insert (signal (stipend c)) ((\<lambda>x. the (num_of x)) ` set ?vals)))"
    using py_max_from_numeric by blast
  have "(\<lambda>x. the (num_of x)) ` set ?vals = (\<lambda>c. signal (stipend c)) ` set rest"
    using assms(2) cs by (force simp: num_of_py_get image_iff)
  with nv have nv': "num_of v = Some (Max (set (map (\<lambda>c. signal (stipend c)) cs)))"
    by (simp add: cs)
  show ?thesis
    using v nv' by (auto simp: max_stipend_of_def cs spec_max_stipend_def py_eq_zero_iff Let_def)
qed

lemma spec_max_stipend_nonzero: "spec_max_stipend cs \<noteq> 0"
  by (simp add: spec_max_stipend_def Let_def)

section \<open>The blended score\<close>

lemma py_truediv_num:
  "numeric field \<Longrightarrow> num_of M = Some m \<Longrightarrow> m \<noteq> 0 \<Longrightarrow>
   py_truediv (py_get field) M = Inr (signal field / m)"
  by (simp add: py_truediv_def num_of_py_get)

lemma py_truediv_no_zero_division:
  "num_of b \<noteq> Some 0 \<Longrightarrow> py_truediv a b \<noteq> Inl ZeroDivisionError"
  by (auto simp: py_truediv_def split: option.splits)

lemma blended_score_well_typed:
  assumes "well_typed c" and "num_of M = Some m" and "m \<noteq> 0"
  shows "blended_score sim M c = Inr (spec_blend sim m c)"
  using assms
  by (simp add: blended_score_def spec_blend_def spec_stipend_term_def well_typed_def
      py_truediv_numeric py_truediv_num)

lemma blended_score_no_zero_division:
  assumes "num_of M \<noteq> Some 0"
  shows "blended_score sim M c \<noteq> Inl ZeroDivisionError"
proof -
  have c: "py_truediv a (PInt 100) \<noteq> Inl ZeroDivisionError"
    "py_truediv a (PInt 5) \<noteq> Inl ZeroDivisionError"
    "py_truediv a (PInt 10) \<noteq> Inl ZeroDivisionError" for a
    by (simp_all add: py_truediv_no_zero_division)
  show ?thesis
    using c py_truediv_no_zero_division [OF assms]
    by (auto simp: blended_score_def bind_err_eq_Inl)
qed

section \<open>Contributing terms\<close>

lemma pick_terms_error: "pick_terms c names is = Inl e \<Longrightarrow> e = IndexError"
  by (induction "is") (auto simp: bind_err_eq_Inl split: if_splits)

lemma pick_terms_in_range:
  "\<forall>i\<in>set is. i < length c \<and> i < length names \<Longrightarrow>
   pick_terms c names is = Inr (map (\<lambda>i. names ! i) (filter (\<lambda>i. 0 < c ! i) is))"
  by (induction "is") simp_all

lemma np_multiply_error: "np_multiply xs ys = Inl e \<Longrightarrow> e = ValueError"
  by (auto simp: np_multiply_def split: if_splits)

lemma np_multiply_same_length:
  "length xs = length ys \<Longrightarrow> np_multiply xs ys = Inr (map2 (*) xs ys)"
  by (simp add: np_multiply_def)

lemma get_top_contributing_terms_error:
  "get_top_contributing_terms L q d names k = Inl e \<Longrightarrow> e = IndexError \<or> e = ValueError"
  by (auto simp: get_top_contributing_terms_def Let_def bind_err_eq_Inl
      dest: pick_terms_error np_multiply_error)

lemma argsort_ok_set: "argsort_ok a \<Longrightarrow> set (a xs) = {0..<length xs}"
proof -
  assume "argsort_ok a"
  then have "mset (a xs) = mset [0..<length xs]" by (simp add: argsort_ok_def)
  then have "set (a xs) = set [0..<length xs]" by (rule mset_eq_setD)
  then show ?thesis by simp
qed

lemma get_top_contributing_terms_ok:
  assumes "argsort_ok (argsort L)" and "length q = length names" and "length d = length names"
  shows "get_top_contributing_terms L q d names 3 =
         Inr (map (\<lambda>i. names ! i)
                (take 3 (filter (\<lambda>i. 0 < map2 (*) q d ! i) (rev (argsort L (map2 (*) q d))))))"
proof -
  let ?c = "map2 (*) q d"
  have "\<forall>i\<in>set (rev (argsort L ?c)). i < length ?c \<and> i < length names"
    using assms by (simp add: argsort_ok_set)
  then show ?thesis
    using assms(2,3)
    by (simp add: get_top_contributing_terms_def Let_def pick_terms_in_range
        np_multiply_same_length py_slice_to_def take_map)
qed

lemma length_dense_row [simp]: "length (dense_row m i) = length (feature_names m)"
  by (simp add: dense_row_def)

section \<open>The scoring loop\<close>

lemma score_loop_well_typed:
  assumes "argsort_ok (argsort L)" and "length qv = length (feature_names m)"
    and "num_of M = Some mx" and "mx \<noteq> 0"
    and "\<forall>c\<in>set cs. well_typed c" and "i + length cs \<le> length sims"
  shows "score_loop L m qv sims M i cs =
         Inr (map (\<lambda>(j, c). (spec_blend (sims ! j) mx c, c,
                     explain (sims ! j) (top_terms_of L qv (dense_row m j) (feature_names m)) c))
                (enumerate i cs))"
  using assms(5,6)
proof (induction cs arbitrary: i)
  case Nil
  then show ?case by simp
next
  case (Cons c cs)
  have i: "i < length sims" using Cons.prems(2) by simp
  have rest: "score_loop L m qv sims M (Suc i) cs =
         Inr (map (\<lambda>(j, c). (spec_blend (sims ! j) mx c, c,
                     explain (sims ! j) (top_terms_of L qv (dense_row m j) (feature_names m)) c))
                (enumerate (Suc i) cs))"
    using Cons.prems by (intro Cons.IH) simp_all
  have wt: "well_typed c" using Cons.prems(1) by simp
  show ?case
    by (simp add: Let_def i rest blended_score_well_typed [OF wt assms(3,4)]
        get_top_contributing_terms_ok [OF assms(1,2)] top_terms_of_def)
qed

lemma score_loop_no_zero_division:
  assumes "num_of M \<noteq> Some 0"
  shows "score_loop L m qv sims M i cs \<noteq> Inl ZeroDivisionError"
proof (induction cs arbitrary: i)
  case Nil
  then show ?case by simp
next
  case (Cons c cs)
  show ?case
    using Cons.IH [of "Suc i"] blended_score_no_zero_division [OF assms]
    by (auto simp: bind_err_eq_Inl Let_def dest: get_top_contributing_terms_error)
qed

lemma score_loop_Inr:
  "score_loop L m qv sims M i cs = Inr scores \<Longrightarrow>
   list_all2 (\<lambda>(j, c) t.
       j < length sims \<and>
       blended_score (sims ! j) M c = Inr (fst t) \<and> fst (snd t) = c \<and>
       (\<exists>terms. get_top_contributing_terms L qv (dense_row m j) (feature_names m) 3 = Inr terms \<and>
                snd (snd t) = explain (sims ! j) terms c))
     (enumerate i cs) scores"
proof (induction cs arbitrary: i scores)
  case Nil
  then show ?case by simp
next
  case (Cons c cs)
  from Cons.prems have i: "i < length sims"
    by (auto split: if_splits)
  from Cons.prems i obtain s terms rest where
    s: "blended_score (sims ! i) M c = Inr s"
    and t: "get_top_contributing_terms L qv (dense_row m i) (feature_names m) 3 = Inr terms"
    and r: "score_loop L m qv sims M (Suc i) cs = Inr rest"
    and sc: "scores = (s, c, explain (sims ! i) terms c) # rest"
    by (auto simp: bind_err_eq_Inr Let_def)
  show ?case
    using Cons.IH [OF r] i s t sc by simp
qed

lemma score_loop_length:
  "score_loop L m qv sims M i cs = Inr scores \<Longrightarrow> length scores = length cs"
  by (drule score_loop_Inr) (auto dest: list_all2_lengthD)

lemma score_loop_records:
  "score_loop L m qv sims M i cs = Inr scores \<Longrightarrow> map (fst \<circ> snd) scores = cs"
proof (induction cs arbitrary: i scores)
  case Nil
  then show ?case by simp
next
  case (Cons c cs)
  then show ?case
    by (auto simp: bind_err_eq_Inr Let_def split: if_splits)
qed

section \<open>Sorting with random keys\<close>

lemma decorated_snd:
  "map snd (map (\<lambda>(i, x). ((fst x, d i), x)) (zip [0..<length xs] xs)) = xs"
  by (simp add: map_snd_zip case_prod_unfold o_def)

lemma length_sort_with_draws [simp]: "length (sort_with_draws d scores) = length scores"
  by (simp add: sort_with_draws_def)

lemma mset_sort_with_draws [simp]: "mset (sort_with_draws d scores) = mset scores"
proof -
  let ?dec = "map (\<lambda>(i, x). ((fst x, d i), x)) (zip [0..<length scores] scores)"
  have "mset (map snd (py_sorted_desc fst ?dec)) = image_mset snd (mset ?dec)"
    by (simp only: mset_map mset_py_sorted_desc)
  also have "\<dots> = mset (map snd ?dec)"
    by (simp only: mset_map)
  finally show ?thesis
    by (simp only: sort_with_draws_def decorated_snd)
qed

lemma sorted_sort_with_draws: "sorted_wrt (\<ge>) (map fst (sort_with_draws d scores))"
proof -
  let ?dec = "map (\<lambda>(i, x). ((fst x, d i), x)) (zip [0..<length scores] scores)"
  let ?srt = "py_sorted_desc fst ?dec"
  have key: "fst (snd t) = fst (fst t)" if "t \<in> set ?srt" for t
    using that by auto
  have "sorted_wrt (\<ge>) (map fst ?srt)"
    by (rule sorted_py_sorted_desc)
  then have "sorted_wrt (\<lambda>s t. fst (fst s) \<ge> fst (fst t)) ?srt"
    unfolding sorted_wrt_map
    by (rule sorted_wrt_mono_rel [rotated]) (auto simp: less_eq_prod_def)
  then have "sorted_wrt (\<lambda>s t. fst (snd s) \<ge> fst (snd t)) ?srt"
    by (rule sorted_wrt_mono_rel [rotated]) (simp add: key)
  then show ?thesis
    by (simp add: sort_with_draws_def sorted_wrt_map)
qed

lemma map_fst_sort_with_draws:
  "map fst (sort_with_draws d scores) = rev (sort (map fst scores))"
proof -
  have "sorted (rev (map fst (sort_with_draws d scores)))"
    using sorted_sort_with_draws [of d scores] by (simp add: sorted_wrt_rev)
  moreover have "mset (rev (map fst (sort_with_draws d scores))) = mset (map fst scores)"
    by simp
  ultimately have "sort (map fst scores) = rev (map fst (sort_with_draws d scores))"
    by (rule properties_for_sort [rotated])
  then show ?thesis by simp
qed

lemma sort_with_draws_cong:
  assumes "\<forall>i<length scores. d1 i = d2 i"
  shows "sort_with_draws d1 scores = sort_with_draws d2 scores"
proof -
  have "map (\<lambda>(i, x). ((fst x, d1 i), x)) (zip [0..<length scores] scores) =
        map (\<lambda>(i, x). ((fst x, d2 i), x)) (zip [0..<length scores] scores)"
    using assms by (intro map_cong refl) (auto dest!: set_zip_leftD)
  then show ?thesis
    by (simp only: sort_with_draws_def)
qed

section \<open>The vector-space path\<close>

lemma length_make_docs [simp]: "length (make_docs L cs) = length cs"
  by (simp add: make_docs_def)

lemma recommend_vector:
  assumes "internships \<noteq> []" "\<not> blank L (make_query L student)"
  shows "recommendInternship L draws student internships top_n =
         bind_err (vector_scores L student internships)
           (\<lambda>scores. Inr (py_slice_to (sort_with_draws draws scores) top_n))"
proof (cases "fit_transform L (make_docs L internships @ [make_query L student])")
  case (Inl e)
  with assms show ?thesis
    by (simp add: recommendInternship_def vector_scores_def Let_def)
next
  case (Inr m)
  with assms show ?thesis
    by (cases "max_stipend_of internships")
      (simp_all add: recommendInternship_def vector_scores_def Let_def)
qed

lemma vector_scores_length:
  "vector_scores L student cs = Inr scores \<Longrightarrow> length scores = length cs"
  by (auto simp: vector_scores_def Let_def bind_err_eq_Inr dest: score_loop_length)

lemma vector_scores_records:
  "vector_scores L student cs = Inr scores \<Longrightarrow> map (fst \<circ> snd) scores = cs"
  by (auto simp: vector_scores_def Let_def bind_err_eq_Inr dest: score_loop_records)

lemma vector_scores_no_zero_division:
  assumes "cs \<noteq> []"
    and "fit_transform L (make_docs L cs @ [make_query L student]) = Inr m"
  shows "vector_scores L student cs \<noteq> Inl ZeroDivisionError"
proof (cases "max_stipend_of cs")
  case (Inl e)
  with assms max_stipend_of_error [of cs e] show ?thesis
    by (auto simp: vector_scores_def Let_def)
next
  case (Inr M)
  with assms score_loop_no_zero_division [OF max_stipend_of_nonzero [OF Inr]]
  show ?thesis
    by (simp add: vector_scores_def Let_def)
qed

lemma vector_scores_well_typed:
  assumes "cs \<noteq> []"
    and "fit_transform L (make_docs L cs @ [make_query L student]) = Inr m"
    and "\<forall>c\<in>set cs. well_typed c" and "argsort_ok (argsort L)"
  shows "vector_scores L student cs =
         Inr (map (\<lambda>(i, c).
                (spec_blend (cosine_similarity L (dense_row m (length cs)) (dense_row m i))
                   (spec_max_stipend cs) c,
                 c,
                 explain (cosine_similarity L (dense_row m (length cs)) (dense_row m i))
                   (top_terms_of L (dense_row m (length cs)) (dense_row m i) (feature_names m))
                   c))
              (enumerate 0 cs))"
proof -
  let ?qv = "dense_row m (length cs)"
  let ?sims = "map (\<lambda>i. cosine_similarity L ?qv (dense_row m i)) [0..<length cs]"
  from assms(1,3) obtain M where M: "max_stipend_of cs = Inr M"
    and nM: "num_of M = Some (spec_max_stipend cs)"
    using max_stipend_of_numeric [of cs] by (auto simp: well_typed_def)
  have loop: "score_loop L m ?qv ?sims M 0 cs =
         Inr (map (\<lambda>(j, c). (spec_blend (?sims ! j) (spec_max_stipend cs) c, c,
                     explain (?sims ! j) (top_terms_of L ?qv (dense_row m j) (feature_names m)) c))
                (enumerate 0 cs))"
    using assms(3,4) nM spec_max_stipend_nonzero
    by (intro score_loop_well_typed) simp_all
  have "map (\<lambda>(j, c). (spec_blend (?sims ! j) (spec_max_stipend cs) c, c,
                     explain (?sims ! j) (top_terms_of L ?qv (dense_row m j) (feature_names m)) c))
                (enumerate 0 cs) =
        map (\<lambda>(i, c).
                (spec_blend (cosine_similarity L ?qv (dense_row m i)) (spec_max_stipend cs) c, c,
                 explain (cosine_similarity L ?qv (dense_row m i))
                   (top_terms_of L ?qv (dense_row m i) (feature_names m)) c))
              (enumerate 0 cs)"
    by (rule map_cong) (auto simp: in_set_enumerate_eq)
  with loop M assms(2) show ?thesis
    by (simp add: vector_scores_def Let_def)
qed


section \<open>The engine on the sample postings\<close>

lemma argsort_ok_stable_argsort: "argsort_ok stable_argsort"
  unfolding argsort_ok_def stable_argsort_def
proof (intro allI conjI)
  fix xs :: "real list"
  show "mset (sort_key (\<lambda>i. xs ! i) [0..<length xs]) = mset [0..<length xs]"
    by simp
  show "sorted (map (\<lambda>i. xs ! i) (sort_key (\<lambda>i. xs ! i) [0..<length xs]))"
    by (rule sorted_sort_key)
qed

lemmas sample_evals = make_query_def make_docs_def get_text_def fmt_text_def
  python_student_def python_alpha_def python_beta_def

lemma python_query: "make_query sample_lib python_student = ''python''"
  by (simp add: sample_evals preprocess_evals)

lemma python_docs:
  "make_docs sample_lib [python_alpha, python_beta] = [''python alpha'', ''python beta'']"
  by (simp add: sample_evals preprocess_evals)

lemmas sk_evals = sk_vocabulary_def sk_ngrams_def sk_tokens_def is_word_char_def
  doc_freq_def string_evals

lemma python_vocabulary:
  "sk_vocabulary stable_argsort [''python alpha'', ''python beta'', ''python''] = [''python'']"
  by (simp add: sk_evals)

lemma python_fit:
  "\<exists>m. fit_transform sample_lib [''python alpha'', ''python beta'', ''python''] = Inr m \<and>
       feature_names m = [''python''] \<and>
       dense_row m 0 = [1] \<and> dense_row m (Suc 0) = [1] \<and> dense_row m (Suc (Suc 0)) = [1]"
  by (simp add: sample_lib_def sk_fit_transform_def python_vocabulary dense_row_def Let_def
      sk_raw_weight_def l2_normalize_def l2_norm_def sk_ngrams_def sk_tokens_def is_word_char_def
      doc_freq_def string_evals)

lemma sample_lib_fields [simp]:
  "argsort sample_lib = stable_argsort"
  "cosine_similarity sample_lib = sk_cosine_similarity"
  "fit_transform sample_lib = sk_fit_transform stable_argsort"
  by (simp_all add: sample_lib_def)

lemma cosine_unit [simp]: "sk_cosine_similarity [1] [1] = 1"
  by (simp add: sk_cosine_similarity_def l2_normalize_def l2_norm_def)

lemma top_terms_python: "top_terms_of sample_lib [1] [1] [''python''] = [''python'']"
  by (simp add: top_terms_of_def stable_argsort_def)

lemma python_first_line:
  "first_line 1 [''python''] = [CHR 0xE2, CHR 0x80, CHR 0xA2] @ '' Keyword Match: python''"
  by (simp add: first_line_def bullet_def)

lemma python_scores:
  "spec_blend 1 1 python_alpha = 0.78" "spec_blend 1 1 python_beta = 0.78"
  by (simp_all add: spec_blend_def spec_stipend_term_def python_alpha_def python_beta_def)

lemma python_well_typed: "well_typed python_alpha" "well_typed python_beta"
  by (simp_all add: well_typed_def python_alpha_def python_beta_def)

lemma python_stipends:
  "signal (stipend python_alpha) = 0" "signal (stipend python_beta) = 0"
  by (simp_all add: python_alpha_def python_beta_def)

lemma python_explain:
  "explain 1 [''python''] python_alpha = python_explanation"
  "explain 1 [''python''] python_beta = python_explanation"
  by (simp_all add: explain_def python_first_line python_explanation_def py_get_def
      python_alpha_def python_beta_def)

lemma python_not_blank: "\<not> blank sample_lib (make_query sample_lib python_student)"
  by (simp add: python_query blank_sample_lib ascii_strip_def is_space_char_def)


section \<open>A vocabulary that ends up empty\<close>

lemma sk_vocabulary_empty:
  assumes "\<forall>t\<in>set (concat (map sk_ngrams corpus)). doc_freq (map sk_ngrams corpus) t < 2"
  shows "sk_vocabulary a corpus = []"
proof -
  have "filter (\<lambda>t. 2 \<le> doc_freq (map sk_ngrams corpus) t)
          (sort (remdups (concat (map sk_ngrams corpus)))) = []"
    using assms by (fastforce simp: filter_empty_conv)
  then show ?thesis
    by (simp add: sk_vocabulary_def Let_def)
qed

text \<open>
  Claim C4 fails on the code. When every term occurs in fewer than two of the documents
  (the candidates' and the query), the vectorizer raises ValueError;
  \<open>recommendInternship\<close> has no handler around the call, so the exception leaves it and
  no score is returned.
\<close>

theorem empty_vocabulary_raises:
  assumes "internships \<noteq> []"
    and "\<not> blank L (make_query L student)"
    and "fit_transform L = sk_fit_transform a"
    and "\<forall>t\<in>set (concat (map sk_ngrams (make_docs L internships @ [make_query L student]))).
           doc_freq (map sk_ngrams (make_docs L internships @ [make_query L student])) t < 2"
  shows "recommendInternship L draws student internships top_n = Inl ValueError"
proof -
  have "sk_vocabulary a (make_docs L internships @ [make_query L student]) = []"
    using assms(4) by (rule sk_vocabulary_empty)
  then have "fit_transform L (make_docs L internships @ [make_query L student]) = Inl ValueError"
    by (simp add: assms(3) sk_fit_transform_def Let_def)
  then show ?thesis
    by (simp add: recommend_vector [OF assms(1,2)] vector_scores_def Let_def)
qed

lemma design_docs:
  "make_docs sample_lib [graphic_design] =
     [''graphic design intern poster design photoshop illustrator'']"
  by (simp add: make_docs_def fmt_text_def graphic_design_def preprocess_evals)

lemma design_terms:
  "sk_ngrams ''graphic design intern poster design photoshop illustrator'' =
     [''graphic'', ''design'', ''intern'', ''poster'', ''design'', ''photoshop'', ''illustrator'',
      ''graphic design'', ''design intern'', ''intern poster'', ''poster design'',
      ''design photoshop'', ''photoshop illustrator'']"
  by (simp add: sk_ngrams_def sk_tokens_def is_word_char_def string_evals)

lemma python_terms: "sk_ngrams ''python'' = [''python'']"
  by (simp add: sk_ngrams_def sk_tokens_def is_word_char_def string_evals)

theorem empty_vocabulary_raises_witness:
  "[graphic_design] \<noteq> [] \<and>
   \<not> blank sample_lib (make_query sample_lib python_student) \<and>
   fit_transform sample_lib = sk_fit_transform stable_argsort \<and>
   list_all
     (\<lambda>t. doc_freq
            (map sk_ngrams (make_docs sample_lib [graphic_design] @
                            [make_query sample_lib python_student])) t < 2)
     (concat (map sk_ngrams (make_docs sample_lib [graphic_design] @
                             [make_query sample_lib python_student]))) \<and>
   recommendInternship sample_lib draws_up python_student [graphic_design] 5 = Inl ValueError"
proof -
  have f: "fit_transform sample_lib = sk_fit_transform stable_argsort"
    by simp
  have d: "list_all
     (\<lambda>t. doc_freq
            (map sk_ngrams (make_docs sample_lib [graphic_design] @
                            [make_query sample_lib python_student])) t < 2)
     (concat (map sk_ngrams (make_docs sample_lib [graphic_design] @
                             [make_query sample_lib python_student])))"
    by (simp add: design_docs python_query design_terms python_terms doc_freq_def)
  from d have d': "\<forall>t\<in>set (concat (map sk_ngrams (make_docs sample_lib [graphic_design] @
                             [make_query sample_lib python_student]))).
      doc_freq (map sk_ngrams (make_docs sample_lib [graphic_design] @
                            [make_query sample_lib python_student])) t < 2"
    by (simp only: list_all_iff)
  show ?thesis
    using empty_vocabulary_raises [OF _ python_not_blank f d', of draws_up 5] d
    by (simp add: python_not_blank)
qed

section \<open>The length of the result\<close>

lemma scenario_docs:
  "make_docs sample_lib [backend_developer, graphic_design] =
     [''backend developer web service development python flask sql'',
      ''graphic design intern poster design photoshop illustrator'']"
  by (simp add: make_docs_def fmt_text_def backend_developer_def graphic_design_def
      preprocess_evals)

lemma machine_learning_query:
  "make_query sample_lib machine_learning_student = ''machine learning''"
  by (simp add: make_query_def get_text_def machine_learning_student_def preprocess_evals)

lemma scenario_vocabulary_empty:
  "sk_vocabulary stable_argsort
     [''backend developer web service development python flask sql'',
      ''graphic design intern poster design photoshop illustrator'',
      ''machine learning''] = []"
  by (simp add: sk_evals)

text \<open>
  Claim C3 fails on the code at the two postings of the specification's scenario and the
  query \<^verbatim>\<open>Machine Learning\<close> with \<open>top_n = 2\<close>: no term occurs in two documents, the
  vectorizer raises ValueError and no list of length \<open>min 2 2\<close> is returned.
\<close>

theorem no_list_on_disjoint_vocabulary:
  "recommendInternship sample_lib draws_up machine_learning_student
     [backend_developer, graphic_design] 2 = Inl ValueError"
proof -
  have "\<not> blank sample_lib (make_query sample_lib machine_learning_student)"
    by (simp add: machine_learning_query blank_sample_lib ascii_strip_def is_space_char_def)
  then show ?thesis
    by (simp add: recommend_vector vector_scores_def scenario_docs machine_learning_query
        sk_fit_transform_def scenario_vocabulary_empty)
qed

text \<open>Whenever the engine returns, the list has the length the claim states.\<close>

lemma recommend_length:
  assumes "recommendInternship L draws student internships top_n = Inr res" and "0 \<le> top_n"
  shows "length res = min (nat top_n) (length internships)"
proof (cases "internships = []")
  case True
  with assms show ?thesis by (simp add: recommendInternship_def)
next
  case ne: False
  show ?thesis
  proof (cases "blank L (make_query L student)")
    case True
    with assms ne obtain scores where "fallback_scores internships = Inr scores"
      and "res = py_slice_to (py_sorted_desc fst scores) top_n"
      by (auto simp: recommend_fallback bind_err_eq_Inr)
    then show ?thesis
      using assms(2) fallback_scores_Inr [of internships scores]
      by (auto simp: length_py_slice_to dest: list_all2_lengthD)
  next
    case False
    with assms ne obtain scores where "vector_scores L student internships = Inr scores"
      and "res = py_slice_to (sort_with_draws draws scores) top_n"
      by (auto simp: recommend_vector bind_err_eq_Inr)
    then show ?thesis
      using assms(2) by (simp add: length_py_slice_to vector_scores_length)
  qed
qed

lemma recommend_empty: "recommendInternship L draws student [] top_n = Inr []"
  by (simp add: recommendInternship_def)

section \<open>Tied postings on the vector-space path\<close>

lemma python_ranking:
  "recommendInternship sample_lib d python_student [python_alpha, python_beta] 5 =
     Inr (py_slice_to
            (sort_with_draws d
               [(0.78, python_alpha, python_explanation), (0.78, python_beta, python_explanation)])
            5)"
proof -
  obtain m where fit: "fit_transform sample_lib
          (make_docs sample_lib [python_alpha, python_beta] @
           [make_query sample_lib python_student]) = Inr m"
    and names: "feature_names m = [''python'']"
    and rows: "dense_row m 0 = [1]" "dense_row m (Suc 0) = [1]" "dense_row m (Suc (Suc 0)) = [1]"
    using python_fit by (auto simp: python_query python_docs)
  have one: "spec_max_stipend [python_alpha, python_beta] = 1"
    by (simp add: spec_max_stipend_def python_stipends)
  have "vector_scores sample_lib python_student [python_alpha, python_beta] =
        Inr [(0.78, python_alpha, python_explanation), (0.78, python_beta, python_explanation)]"
    using vector_scores_well_typed [OF _ fit]
    by (simp add: python_well_typed argsort_ok_stable_argsort one names rows top_terms_python
        python_scores python_explain)
  then show ?thesis
    by (simp add: recommend_vector python_not_blank)
qed

lemma python_ranking_up:
  "recommendInternship sample_lib draws_up python_student [python_alpha, python_beta] 5 =
     Inr [(0.78, python_beta, python_explanation), (0.78, python_alpha, python_explanation)]"
  by (simp add: python_ranking sort_with_draws_def py_sorted_desc_def py_slice_to_def
      draws_up_def less_eq_prod_def)

lemma python_ranking_down:
  "recommendInternship sample_lib draws_down python_student [python_alpha, python_beta] 5 =
     Inr [(0.78, python_alpha, python_explanation), (0.78, python_beta, python_explanation)]"
  by (simp add: python_ranking sort_with_draws_def py_sorted_desc_def py_slice_to_def
      draws_down_def less_eq_prod_def)

lemma alpha_not_beta: "python_alpha \<noteq> python_beta"
  by (simp add: python_alpha_def python_beta_def)

lemma fallback_scores_records:
  "fallback_scores cs = Inr scores \<Longrightarrow> map (fst \<circ> snd) scores = cs"
proof (induction cs arbitrary: scores)
  case Nil
  then show ?case by simp
next
  case (Cons c cs)
  then show ?case
    by (auto simp: bind_err_eq_Inr)
qed

section \<open>A signal that is not a number\<close>

lemma null_popularity_docs: "make_docs sample_lib [null_popularity] = [''python alpha'']"
  by (simp add: make_docs_def fmt_text_def null_popularity_def python_alpha_def preprocess_evals)

lemma null_popularity_vocabulary:
  "sk_vocabulary stable_argsort [''python alpha'', ''python''] = [''python'']"
  by (simp add: sk_evals)

text \<open>A key that is missing from the dictionary does count as 0: that is the default of
  \<^verbatim>\<open>intern.get(key, 0)\<close>.\<close>

lemma missing_key_scores_as_zero:
  "blended_score sim M (c\<lparr>popularity := None\<rparr>) =
     blended_score sim M (c\<lparr>popularity := Some (PInt 0)\<rparr>)"
  "blended_score sim M (c\<lparr>rating := None\<rparr>) =
     blended_score sim M (c\<lparr>rating := Some (PInt 0)\<rparr>)"
  "blended_score sim M (c\<lparr>company_prestige := None\<rparr>) =
     blended_score sim M (c\<lparr>company_prestige := Some (PInt 0)\<rparr>)"
  "blended_score sim M (c\<lparr>stipend := None\<rparr>) =
     blended_score sim M (c\<lparr>stipend := Some (PInt 0)\<rparr>)"
  "fallback_score (c\<lparr>popularity := None\<rparr>) = fallback_score (c\<lparr>popularity := Some (PInt 0)\<rparr>)"
  "fallback_score (c\<lparr>rating := None\<rparr>) = fallback_score (c\<lparr>rating := Some (PInt 0)\<rparr>)"
  "fallback_score (c\<lparr>company_prestige := None\<rparr>) =
     fallback_score (c\<lparr>company_prestige := Some (PInt 0)\<rparr>)"
  by (simp_all add: blended_score_def fallback_score_def py_get_def)

text \<open>
  Claim C7 fails on the code. The postings come from \<^verbatim>\<open>dict(row)\<close>, which has every
  key, so a signal that is missing arrives as \<^verbatim>\<open>None\<close> (SQL NULL) under its key, and
  \<^verbatim>\<open>intern.get(key, 0)\<close> returns it as it is. For the posting Python Alpha with
  popularity \<^verbatim>\<open>None\<close> the division \<^verbatim>\<open>None / 100\<close> raises TypeError on the vector-space
  path and on the fallback path, nothing catches it, and the call returns no score at
  all, where the claim has it complete and score the record as if the field were 0.
\<close>

theorem none_signal_raises:
  "popularity null_popularity = Some PNone \<and>
   recommendInternship sample_lib draws_up python_student [null_popularity] 5 = Inl TypeError \<and>
   recommendInternship sample_lib draws_up stop_word_student [null_popularity] 5 =
     Inl TypeError"
proof -
  have s: "blended_score sim M null_popularity = Inl TypeError" for sim M
    by (simp add: blended_score_def null_popularity_def py_get_def py_truediv_def)
  have m: "max_stipend_of [null_popularity] = Inr (PInt 1)"
    by (simp add: max_stipend_of_def null_popularity_def python_alpha_def py_get_def)
  have v: "recommendInternship sample_lib draws_up python_student [null_popularity] 5 =
      Inl TypeError"
    by (simp add: s m recommend_vector [OF _ python_not_blank] vector_scores_def
        null_popularity_docs
        python_query sk_fit_transform_def null_popularity_vocabulary Let_def)
  have f: "fallback_score null_popularity = Inl TypeError"
    by (simp add: fallback_score_def float_truediv_def null_popularity_def py_get_def
        py_truediv_def)
  have "recommendInternship sample_lib draws_up stop_word_student [null_popularity] 5 =
      Inl TypeError"
    by (simp add: recommend_fallback stop_word_blank f)
  with v show ?thesis
    by (simp add: null_popularity_def)
qed

section \<open>The terms of an explanation\<close>

lemma argsort_ok_distinct: "argsort_ok a \<Longrightarrow> distinct (a xs)"
proof -
  assume "argsort_ok a"
  then have "mset (a xs) = mset [0..<length xs]" by (simp add: argsort_ok_def)
  then have "distinct (a xs) = distinct [0..<length xs]" by (rule mset_eq_imp_distinct_iff)
  then show ?thesis by simp
qed

lemma argsort_ok_descending:
  assumes "argsort_ok a"
  shows "sorted_wrt (\<lambda>i j. c ! j \<le> c ! i) (rev (a c))"
proof -
  from assms have "sorted (map (\<lambda>i. c ! i) (a c))" by (simp add: argsort_ok_def)
  then have "sorted_wrt (\<lambda>i j. c ! i \<le> c ! j) (a c)"
    by (simp add: sorted_wrt_map)
  then show ?thesis
    by (simp add: sorted_wrt_rev)
qed

lemma count_positive:
  assumes "argsort_ok a"
  shows "length (filter (\<lambda>i. 0 < c ! i) (rev (a c))) = length (filter (\<lambda>x. 0 < x) c)"
proof -
  from assms have "mset (rev (a c)) = mset [0..<length c]" by (simp add: argsort_ok_def)
  then have "mset (filter (\<lambda>i. 0 < c ! i) (rev (a c))) =
             mset (filter (\<lambda>i. 0 < c ! i) [0..<length c])"
    by (simp only: mset_filter)
  then have "length (filter (\<lambda>i. 0 < c ! i) (rev (a c))) =
             length (filter (\<lambda>i. 0 < c ! i) [0..<length c])"
    by (rule mset_eq_length)
  also have "\<dots> = length (map (\<lambda>i. c ! i) (filter (\<lambda>i. 0 < c ! i) [0..<length c]))"
    by simp
  also have "map (\<lambda>i. c ! i) (filter (\<lambda>i. 0 < c ! i) [0..<length c]) =
             filter (\<lambda>x. 0 < x) (map (\<lambda>i. c ! i) [0..<length c])"
    by (simp add: filter_map o_def)
  also have "map (\<lambda>i. c ! i) [0..<length c] = c"
    by (rule map_nth)
  finally show ?thesis .
qed

lemma top_by_product_argsort:
  assumes "argsort_ok a"
  shows "top_by_product c (take 3 (filter (\<lambda>i. 0 < c ! i) (rev (a c))))"
proof -
  define F where "F = filter (\<lambda>i. 0 < c ! i) (rev (a c))"
  define sel where "sel = take 3 F"
  have F: "F = sel @ drop 3 F"
    by (simp add: sel_def)
  have dF: "distinct F"
    using argsort_ok_distinct [OF assms, of c] by (simp add: F_def)
  have setF: "set F = {i. i < length c \<and> 0 < c ! i}"
    using argsort_ok_set [OF assms, of c] by (auto simp: F_def)
  have sF: "sorted_wrt (\<lambda>i j. c ! j \<le> c ! i) F"
    unfolding F_def using argsort_ok_descending [OF assms, of c] by (rule sorted_wrt_filter)
  have lF: "length F = length (filter (\<lambda>x. 0 < x) c)"
    unfolding F_def by (rule count_positive [OF assms])
  have sub: "set sel \<subseteq> set F"
    unfolding sel_def by (rule set_take_subset)
  have d: "distinct sel"
    unfolding sel_def using dF by (rule distinct_take)
  have r: "list_all (\<lambda>i. i < length c \<and> 0 < c ! i) sel"
    unfolding list_all_iff using sub setF by blast
  have s: "sorted_wrt (\<lambda>i j. c ! j \<le> c ! i) sel"
    unfolding sel_def using sF by (rule sorted_wrt_take)
  have l: "length sel = min 3 (length (filter (\<lambda>x. 0 < x) c))"
    by (simp add: sel_def lF min.commute)
  have split: "sorted_wrt (\<lambda>i j. c ! j \<le> c ! i) (sel @ drop 3 F)"
    using sF F by simp
  have x: "c ! j \<le> c ! i" if "j < length c" "j \<notin> set sel" "0 < c ! j" "i \<in> set sel" for i j
  proof -
    from that(1,3) have "j \<in> set F" by (simp add: setF)
    then have "j \<in> set (sel @ drop 3 F)" using F by simp
    then have "j \<in> set sel \<or> j \<in> set (drop 3 F)" by (simp only: set_append Un_iff)
    with that(2) have "j \<in> set (drop 3 F)" by blast
    with split that(4) show ?thesis
      by (simp only: sorted_wrt_append)
  qed
  have e: "list_all (\<lambda>j. j \<in> set sel \<or> \<not> 0 < c ! j \<or> list_all (\<lambda>i. c ! j \<le> c ! i) sel)
             [0..<length c]"
    unfolding list_all_iff
  proof (intro ballI)
    fix j assume "j \<in> set [0..<length c]"
    then have "j < length c" by simp
    then show "j \<in> set sel \<or> \<not> 0 < c ! j \<or> (\<forall>i\<in>set sel. c ! j \<le> c ! i)"
      using x [of j] by blast
  qed
  have "top_by_product c sel"
    unfolding top_by_product_def by (intro conjI d r s l e)
  then show ?thesis
    by (simp only: sel_def F_def)
qed

lemma first_line_spec: "first_line sim terms = spec_first_line sim terms"
  by (simp add: first_line_def spec_first_line_def bullet_def)

lemma py_get_shown: "py_get field = shown field"
  by (cases field) (simp_all add: py_get_def)

lemma score_loop_nth:
  "score_loop L m qv sims M i cs = Inr scores \<Longrightarrow> k < length cs \<Longrightarrow>
   i + k < length sims \<and>
   (\<exists>terms. get_top_contributing_terms L qv (dense_row m (i + k)) (feature_names m) 3 =
              Inr terms \<and>
            snd (scores ! k) = (cs ! k, explain (sims ! (i + k)) terms (cs ! k)))"
proof (induction cs arbitrary: i k scores)
  case Nil
  then show ?case by simp
next
  case (Cons c cs)
  from Cons.prems(1) have i: "i < length sims"
    by (auto split: if_splits)
  from Cons.prems(1) i obtain s terms rest where
    t: "get_top_contributing_terms L qv (dense_row m i) (feature_names m) 3 = Inr terms"
    and r: "score_loop L m qv sims M (Suc i) cs = Inr rest"
    and sc: "scores = (s, c, explain (sims ! i) terms c) # rest"
    by (auto simp: bind_err_eq_Inr Let_def)
  show ?case
  proof (cases k)
    case 0
    with i t sc show ?thesis by simp
  next
    case (Suc k')
    with Cons.prems(2) have "k' < length cs" by simp
    from Cons.IH [OF r this] show ?thesis
      by (simp add: Suc sc)
  qed
qed

text \<open>A stable ascending sort of the indices leaves equal values in ascending index
  order, so the reversed list has them in descending index order.\<close>

lemma sorted_stable_lex:
  fixes f :: "nat \<Rightarrow> real"
  assumes "sorted (map f ys)" and "\<forall>k. sorted_wrt (<) (filter (\<lambda>i. f i = k) ys)"
  shows "sorted_wrt (\<lambda>a b. f a < f b \<or> f a = f b \<and> a < b) ys"
  using assms
proof (induction ys)
  case Nil
  then show ?case by simp
next
  case (Cons y ys)
  have s: "sorted (map f ys)"
    using Cons.prems(1) by simp
  have t: "\<forall>k. sorted_wrt (<) (filter (\<lambda>i. f i = k) ys)"
  proof
    fix k
    from Cons.prems(2) have "sorted_wrt (<) (filter (\<lambda>i. f i = k) (y # ys))" by (rule spec)
    then show "sorted_wrt (<) (filter (\<lambda>i. f i = k) ys)"
      by (cases "f y = k") simp_all
  qed
  have h: "f y < f b \<or> f y = f b \<and> y < b" if b: "b \<in> set ys" for b
  proof (cases "f y = f b")
    case True
    from Cons.prems(2) have "sorted_wrt (<) (filter (\<lambda>i. f i = f y) (y # ys))" by (rule spec)
    then have "\<forall>x\<in>set (filter (\<lambda>i. f i = f y) ys). y < x" by simp
    with b True show ?thesis by simp
  next
    case False
    from Cons.prems(1) b have "f y \<le> f b" by simp
    with False show ?thesis by simp
  qed
  from Cons.IH [OF s t] h show ?case by simp
qed

lemma stable_argsort_ties:
  "sorted_wrt (\<lambda>a b. c ! a < c ! b \<or> c ! a = c ! b \<and> a < b) (stable_argsort c)"
  unfolding stable_argsort_def
proof (rule sorted_stable_lex)
  show "sorted (map ((!) c) (sort_key ((!) c) [0..<length c]))"
    by (rule sorted_sort_key)
  show "\<forall>k. sorted_wrt (<) (filter (\<lambda>i. c ! i = k) (sort_key ((!) c) [0..<length c]))"
  proof
    fix k
    have "filter (\<lambda>i. c ! i = k) (sort_key ((!) c) [0..<length c]) =
          filter (\<lambda>i. c ! i = k) [0..<length c]"
      by (rule sort_key_stable)
    moreover have "sorted_wrt (<) (filter (\<lambda>i. c ! i = k) [0..<length c])"
      by (rule sorted_wrt_filter) (rule sorted_wrt_upt)
    ultimately show "sorted_wrt (<) (filter (\<lambda>i. c ! i = k) (sort_key ((!) c) [0..<length c]))"
      by simp
  qed
qed

lemma stable_selection_ties:
  assumes "a c = stable_argsort c"
  shows "sorted_wrt (\<lambda>i j. c ! j < c ! i \<or> c ! j = c ! i \<and> j < i)
           (take 3 (filter (\<lambda>j. 0 < c ! j) (rev (a c))))"
proof -
  have "sorted_wrt (\<lambda>i j. c ! j < c ! i \<or> c ! j = c ! i \<and> j < i) (rev (stable_argsort c))"
    using stable_argsort_ties [of c] by (simp add: sorted_wrt_rev)
  then have "sorted_wrt (\<lambda>i j. c ! j < c ! i \<or> c ! j = c ! i \<and> j < i)
               (filter (\<lambda>j. 0 < c ! j) (rev (stable_argsort c)))"
    by (rule sorted_wrt_filter)
  then show ?thesis
    unfolding assms by (rule sorted_wrt_take)
qed

lemma set_py_slice_to: "set (py_slice_to xs k) \<subseteq> set xs"
  by (simp add: py_slice_to_def set_take_subset)

lemma set_sort_with_draws: "set (sort_with_draws d scores) = set scores"
  using mset_sort_with_draws [of d scores] by (rule mset_eq_setD)


lemma flask_query: "make_query sample_lib flask_student = ''python flask''"
  by (simp add: make_query_def get_text_def flask_student_def preprocess_evals)

lemma backend_docs:
  "make_docs sample_lib [backend_developer] =
     [''backend developer web service development python flask sql'']"
  by (simp add: make_docs_def fmt_text_def backend_developer_def preprocess_evals)

lemma flask_vocabulary:
  "sk_vocabulary stable_argsort
     [''backend developer web service development python flask sql'', ''python flask''] =
   [''flask'', ''python'', ''python flask'']"
  by (simp add: sk_evals)

lemma inv_sqrt3_sq: "1 / sqrt 3 * (1 / sqrt 3) = (1 / 3 :: real)"
  by simp

lemma flask_fit:
  "\<exists>m. fit_transform sample_lib
         [''backend developer web service development python flask sql'', ''python flask''] =
         Inr m \<and>
       feature_names m = [''flask'', ''python'', ''python flask''] \<and>
       dense_row m 0 = [1 / sqrt 3, 1 / sqrt 3, 1 / sqrt 3] \<and>
       dense_row m (Suc 0) = [1 / sqrt 3, 1 / sqrt 3, 1 / sqrt 3]"
  by (simp add: sk_fit_transform_def flask_vocabulary dense_row_def Let_def
      sk_raw_weight_def l2_normalize_def l2_norm_def sk_ngrams_def sk_tokens_def is_word_char_def
      doc_freq_def string_evals upt_rec [of 0] upt_rec [of 1] upt_rec [of 2])

lemma unit_row_norm: "l2_norm [1 / sqrt 3, 1 / sqrt 3, 1 / sqrt 3] = 1"
  by (simp add: l2_norm_def)

lemma flask_cosine:
  "sk_cosine_similarity [1 / sqrt 3, 1 / sqrt 3, 1 / sqrt 3] [1 / sqrt 3, 1 / sqrt 3, 1 / sqrt 3] = 1"
  by (simp add: sk_cosine_similarity_def l2_normalize_def unit_row_norm)

lemma flask_contributions:
  "map2 (*) [1 / sqrt 3, 1 / sqrt 3, 1 / sqrt 3] [1 / sqrt 3, 1 / sqrt 3, 1 / sqrt 3] =
     [1 / 3, 1 / 3, 1 / 3 :: real]"
  by simp

lemma flask_argsort: "stable_argsort [1 / 3, 1 / 3, 1 / 3] = [0, 1, 2]"
  by (simp add: stable_argsort_def upt_rec [of 0] upt_rec [of 1] upt_rec [of 2])

lemma flask_top_terms:
  "top_terms_of sample_lib [1 / sqrt 3, 1 / sqrt 3, 1 / sqrt 3] [1 / sqrt 3, 1 / sqrt 3, 1 / sqrt 3]
     [''flask'', ''python'', ''python flask''] = [''python flask'', ''python'', ''flask'']"
  unfolding top_terms_of_def flask_contributions
  by (simp add: flask_argsort)

lemma flask_spec_terms:
  "spec_top_terms [1 / 3, 1 / 3, 1 / 3] [''flask'', ''python'', ''python flask''] =
     [''flask'', ''python'', ''python flask'']"
  by (simp add: spec_top_terms_def py_sorted_desc_def upt_rec [of 0] upt_rec [of 1] upt_rec [of 2])

lemma backend_score: "spec_blend 1 10000 backend_developer = 0.939"
  by (simp add: spec_blend_def spec_stipend_term_def backend_developer_def)

lemma backend_max_stipend: "spec_max_stipend [backend_developer] = 10000"
  by (simp add: spec_max_stipend_def backend_developer_def)

lemma backend_well_typed: "well_typed backend_developer"
  by (simp add: well_typed_def backend_developer_def)

lemma flask_not_blank: "\<not> blank sample_lib (make_query sample_lib flask_student)"
  by (simp add: flask_query blank_sample_lib ascii_strip_def is_space_char_def)

lemma backend_explain:
  "explain 1 [''python flask'', ''python'', ''flask''] backend_developer = flask_explanation"
  by (simp add: explain_def first_line_def bullet_def flask_explanation_def py_get_def
      backend_developer_def)

lemma flask_ranking:
  "recommendInternship sample_lib draws_up flask_student [backend_developer] 5 =
     Inr [(0.939, backend_developer, flask_explanation)]"
proof -
  obtain m where fit: "fit_transform sample_lib
          (make_docs sample_lib [backend_developer] @ [make_query sample_lib flask_student]) =
          Inr m"
    and names: "feature_names m = [''flask'', ''python'', ''python flask'']"
    and rows: "dense_row m 0 = [1 / sqrt 3, 1 / sqrt 3, 1 / sqrt 3]"
      "dense_row m (Suc 0) = [1 / sqrt 3, 1 / sqrt 3, 1 / sqrt 3]"
    using flask_fit by (auto simp: flask_query backend_docs)
  have "vector_scores sample_lib flask_student [backend_developer] =
        Inr [(0.939, backend_developer, flask_explanation)]"
    using vector_scores_well_typed [OF _ fit]
    by (simp add: backend_well_typed argsort_ok_stable_argsort backend_max_stipend names rows
        flask_cosine flask_top_terms backend_score backend_explain)
  then show ?thesis
    by (simp add: recommend_vector flask_not_blank sort_with_draws_def py_sorted_desc_def
        py_slice_to_def)
qed

lemma flask_matrix_rows:
  "feature_names flask_matrix = [''flask'', ''python'', ''python flask'']"
  "dense_row flask_matrix 0 = [1 / sqrt 3, 1 / sqrt 3, 1 / sqrt 3]"
  "dense_row flask_matrix (Suc 0) = [1 / sqrt 3, 1 / sqrt 3, 1 / sqrt 3]"
  using flask_fit by (auto simp: flask_matrix_def flask_query backend_docs)

lemma flask_matrix_fit:
  "fit_transform sample_lib
     (make_docs sample_lib [backend_developer] @ [make_query sample_lib flask_student]) =
   Inr flask_matrix"
  using flask_fit by (auto simp: flask_matrix_def flask_query backend_docs)


lemma flask_selection:
  "take 3 (filter (\<lambda>j. 0 < [1 / 3, 1 / 3, 1 / 3 :: real] ! j)
             (rev (stable_argsort [1 / 3, 1 / 3, 1 / 3]))) = [2, 1, 0]"
  unfolding flask_argsort by simp


end
